theory Spec2Isabelle
  imports Main "HOL-Library.Word"
begin

unbundle bit_operations_syntax

section \<open>Kernel constants\<close>

text \<open>
  Modelled from the spec: the \<open>MS_*\<close> mount flags and the \<open>errno\<close> values are not
  defined in \<open>mount.c\<close>; they come from the system headers (\<open>sys/mount.h\<close>, \<open>errno.h\<close>)
  and from \<open>busybox.h\<close>, and the values are those of the Linux ABI. \<open>MOUNT_NOAUTO\<close>
  and \<open>MOUNT_SWAP\<close> are defined in \<open>mount.c\<close> itself.
  The C \<open>int\<close> holding the flags is a 32-bit word. The table stores its masks in a
  \<open>long\<close>; every mask fits an \<open>int\<close>, so the sign test on the \<open>long\<close> is the sign test
  on the low 32 bits, and \<open>flags &= fl\<close>, \<open>flags |= fl\<close> (widen, combine, truncate)
  are the 32-bit operations on the truncated mask.
\<close>

definition MS_RDONLY :: "32 word" where "MS_RDONLY = 1"
definition MS_NOSUID :: "32 word" where "MS_NOSUID = 2"
definition MS_NODEV :: "32 word" where "MS_NODEV = 4"
definition MS_NOEXEC :: "32 word" where "MS_NOEXEC = 8"
definition MS_SYNCHRONOUS :: "32 word" where "MS_SYNCHRONOUS = 16"
definition MS_REMOUNT :: "32 word" where "MS_REMOUNT = 32"
definition MS_MANDLOCK :: "32 word" where "MS_MANDLOCK = 64"
definition MS_NOATIME :: "32 word" where "MS_NOATIME = 1024"
definition MS_NODIRATIME :: "32 word" where "MS_NODIRATIME = 2048"
definition MS_BIND :: "32 word" where "MS_BIND = 4096"
definition MS_MOVE :: "32 word" where "MS_MOVE = 8192"
definition MS_RECURSIVE :: "32 word" where "MS_RECURSIVE = 16384"
definition MS_SILENT :: "32 word" where "MS_SILENT = 32768"
definition MS_UNBINDABLE :: "32 word" where "MS_UNBINDABLE = 131072"
definition MS_PRIVATE :: "32 word" where "MS_PRIVATE = 262144"
definition MS_SLAVE :: "32 word" where "MS_SLAVE = 524288"
definition MS_SHARED :: "32 word" where "MS_SHARED = 1048576"
definition MOUNT_NOAUTO :: "32 word" where "MOUNT_NOAUTO = 536870912"
definition MOUNT_SWAP :: "32 word" where "MOUNT_SWAP = 1073741824"

lemmas MS_defs = MS_RDONLY_def MS_NOSUID_def MS_NODEV_def MS_NOEXEC_def
  MS_SYNCHRONOUS_def MS_REMOUNT_def MS_MANDLOCK_def MS_NOATIME_def MS_NODIRATIME_def
  MS_BIND_def MS_MOVE_def MS_RECURSIVE_def MS_SILENT_def MS_UNBINDABLE_def
  MS_PRIVATE_def MS_SLAVE_def MS_SHARED_def MOUNT_NOAUTO_def MOUNT_SWAP_def

definition EPERM :: int where "EPERM = 1"
definition EACCES :: int where "EACCES = 13"
definition EBUSY :: int where "EBUSY = 16"
definition EROFS :: int where "EROFS = 30"

section \<open>Build configuration\<close>

text \<open>
  The \<open>ENABLE_FEATURE_*\<close> / \<open>USE_FEATURE_*\<close> macros are fixed when busybox is
  configured; the model takes them as a record of booleans.
\<close>

record config =
  ENABLE_FEATURE_MOUNT_LOOP :: bool
  ENABLE_FEATURE_MOUNT_FSTAB :: bool
  ENABLE_FEATURE_MOUNT_FLAGS :: bool
  ENABLE_FEATURE_MOUNT_CIFS :: bool
  ENABLE_FEATURE_MOUNT_NFS :: bool
  ENABLE_FEATURE_MTAB_SUPPORT :: bool
  ENABLE_FEATURE_CLEAN_UP :: bool

definition all_features :: config where
  "all_features = \<lparr> ENABLE_FEATURE_MOUNT_LOOP = True, ENABLE_FEATURE_MOUNT_FSTAB = True,
     ENABLE_FEATURE_MOUNT_FLAGS = True, ENABLE_FEATURE_MOUNT_CIFS = True,
     ENABLE_FEATURE_MOUNT_NFS = True, ENABLE_FEATURE_MTAB_SUPPORT = True,
     ENABLE_FEATURE_CLEAN_UP = True \<rparr>"

section \<open>The option table\<close>

definition mount_options :: "config \<Rightarrow> (string \<times> 32 word) list" where
  "mount_options cfg =
     (if ENABLE_FEATURE_MOUNT_LOOP cfg then [(''loop'', 0)] else []) @
     (if ENABLE_FEATURE_MOUNT_FSTAB cfg then
        [(''defaults'', 0), (''quiet'', 0), (''noauto'', MOUNT_NOAUTO), (''swap'', MOUNT_SWAP)]
      else []) @
     (if ENABLE_FEATURE_MOUNT_FLAGS cfg then
        [(''nosuid'', MS_NOSUID), (''suid'', NOT MS_NOSUID),
         (''dev'', NOT MS_NODEV), (''nodev'', MS_NODEV),
         (''exec'', NOT MS_NOEXEC), (''noexec'', MS_NOEXEC),
         (''sync'', MS_SYNCHRONOUS), (''async'', NOT MS_SYNCHRONOUS),
         (''atime'', NOT MS_NOATIME), (''noatime'', MS_NOATIME),
         (''diratime'', NOT MS_NODIRATIME), (''nodiratime'', MS_NODIRATIME),
         (''loud'', NOT MS_SILENT),
         (''bind'', MS_BIND), (''move'', MS_MOVE),
         (''shared'', MS_SHARED), (''slave'', MS_SLAVE),
         (''private'', MS_PRIVATE), (''unbindable'', MS_UNBINDABLE),
         (''rshared'', MS_SHARED OR MS_RECURSIVE), (''rslave'', MS_SLAVE OR MS_RECURSIVE),
         (''rprivate'', MS_SLAVE OR MS_RECURSIVE),
         (''runbindable'', MS_UNBINDABLE OR MS_RECURSIVE)]
      else []) @
     [(''ro'', MS_RDONLY), (''rw'', NOT MS_RDONLY), (''remount'', MS_REMOUNT)]"

section \<open>C strings\<close>

definition NUL :: char where "NUL = CHR 0x00"

text \<open>The C string stored in \<open>mem\<close> from offset \<open>p\<close>: the bytes up to the first NUL.\<close>

definition c_string :: "char list \<Rightarrow> nat \<Rightarrow> string" where
  "c_string mem p = takeWhile (\<lambda>c. c \<noteq> NUL) (drop p mem)"

text \<open>A string laid out in memory: its characters and the terminator.\<close>

definition in_memory :: "string \<Rightarrow> char list" where
  "in_memory s = s @ [NUL]"

text \<open>\<open>strchr\<close> on the bytes from the pointer on: the offset of the first \<open>c\<close> found
  before the terminator, or \<open>None\<close> for the null pointer. The end of the list stands
  for memory the string does not own and is read as a terminator.\<close>

fun strchr :: "char list \<Rightarrow> char \<Rightarrow> nat option" where
  "strchr [] c = None"
| "strchr (x # xs) c =
     (if x = c then Some 0 else if x = NUL then None else map_option Suc (strchr xs c))"

text \<open>\<open>tolower\<close> in the C locale: the bytes \<open>'A'\<close> (65) to \<open>'Z'\<close> (90) move up
  by 32, every other byte stays.\<close>

definition tolower :: "char \<Rightarrow> char" where
  "tolower c = (if (65::nat) \<le> of_char c \<and> of_char c \<le> (90::nat)
                then char_of (of_char c + (32::nat)) else c)"

text \<open>\<open>strcasecmp\<close> on two NUL-free strings: 0 when they agree up to case, otherwise the
  difference of the first two lower-cased bytes that differ (the terminator counts as 0).\<close>

fun strcasecmp :: "string \<Rightarrow> string \<Rightarrow> int" where
  "strcasecmp [] [] = 0"
| "strcasecmp [] (b # bs) = - int (of_char (tolower b))"
| "strcasecmp (a # as) [] = int (of_char (tolower a))"
| "strcasecmp (a # as) (b # bs) =
     (if tolower a = tolower b then strcasecmp as bs
      else int (of_char (tolower a)) - int (of_char (tolower b)))"

section \<open>parse_mount_options\<close>

text \<open>The inner \<open>for\<close> loop: the mask of the first table entry whose name matches the
  token (\<open>break\<close>), or \<open>None\<close> when the index runs off the end of the table.\<close>

fun find_option :: "(string \<times> 32 word) list \<Rightarrow> string \<Rightarrow> 32 word option" where
  "find_option [] tok = None"
| "find_option ((name, fl) # rest) tok =
     (if strcasecmp name tok = 0 then Some fl else find_option rest tok)"

text \<open>\<open>if(fl < 0) flags &= fl; else flags |= fl;\<close>\<close>

definition apply_flag :: "32 word \<Rightarrow> 32 word \<Rightarrow> 32 word" where
  "apply_flag flags fl = (if fl <s 0 then flags AND fl else flags OR fl)"

text \<open>The collector \<open>char **unrecognized\<close>: \<open>None\<close> is the null pointer (nothing is
  collected), \<open>Some None\<close> points to a null string, \<open>Some (Some s)\<close> to the string \<open>s\<close>.
  Appending a token writes a comma first when the string collected so far is not empty.\<close>

definition append_unrecognized :: "string option \<Rightarrow> string \<Rightarrow> string option" where
  "append_unrecognized u tok =
     (let i = (case u of None \<Rightarrow> 0 | Some s \<Rightarrow> length s)
      in if i \<noteq> 0 then Some (take i (case u of None \<Rightarrow> [] | Some s \<Rightarrow> s) @ '','' @ tok)
         else Some tok)"

lemma strchr_bound: "strchr xs c = Some k \<Longrightarrow> k < length xs"
  by (induction xs arbitrary: k) (auto split: if_splits)

text \<open>The outer loop, on the memory holding the option string: \<open>options\<close> is the offset
  of the current token. The comma found by \<open>strchr\<close> is overwritten with NUL, the token
  is looked up, and the comma is written back before the pointer moves behind it.\<close>

function parse_mount_options_loop ::
  "config \<Rightarrow> char list \<Rightarrow> nat \<Rightarrow> 32 word \<Rightarrow> string option option
     \<Rightarrow> 32 word \<times> string option option \<times> char list" where
  "parse_mount_options_loop cfg mem options flags unrecognized =
     (case strchr (drop options mem) CHR '','' of
        None \<Rightarrow>
          (let tok = c_string mem options;
               found = find_option (mount_options cfg) tok
           in (case found of Some fl \<Rightarrow> apply_flag flags fl | None \<Rightarrow> flags,
               case unrecognized of
                 None \<Rightarrow> None
               | Some u \<Rightarrow> (case found of None \<Rightarrow> Some (append_unrecognized u tok)
                                        | Some fl \<Rightarrow> Some u),
               mem))
      | Some k \<Rightarrow>
          (let comma = options + k;
               mem1 = mem[comma := NUL];
               tok = c_string mem1 options;
               found = find_option (mount_options cfg) tok;
               flags1 = (case found of Some fl \<Rightarrow> apply_flag flags fl | None \<Rightarrow> flags);
               unrecognized1 =
                 (case unrecognized of
                    None \<Rightarrow> None
                  | Some u \<Rightarrow> (case found of None \<Rightarrow> Some (append_unrecognized u tok)
                                           | Some fl \<Rightarrow> Some u));
               mem2 = mem1[comma := CHR '','']
           in parse_mount_options_loop cfg mem2 (comma + 1) flags1 unrecognized1))"
  by pat_completeness auto

termination parse_mount_options_loop
proof (relation "measure (\<lambda>(cfg, mem, options, flags, unrecognized). length mem - options)")
  show "wf (measure (\<lambda>(cfg, mem, options, flags, unrecognized). length mem - options))"
    by simp
next
  fix cfg :: config and mem :: "char list" and options :: nat and flags :: "32 word"
    and unrecognized :: "string option option" and k comma mem1 tok found flags1
      unrecognized1 mem2
  assume k: "strchr (drop options mem) CHR '','' = Some k"
    and c: "comma = options + k" and m1: "mem1 = mem[comma := NUL]"
    and m2: "mem2 = mem1[comma := CHR '','']"
  from strchr_bound[OF k] have "options + k < length mem" by simp
  with c m1 m2
  show "((cfg, mem2, comma + 1, flags1, unrecognized1), (cfg, mem, options, flags, unrecognized))
        \<in> measure (\<lambda>(cfg, mem, options, flags, unrecognized). length mem - options)"
    by simp
qed

declare parse_mount_options_loop.simps [simp del]

definition parse_mount_options ::
  "config \<Rightarrow> char list \<Rightarrow> nat \<Rightarrow> string option option
     \<Rightarrow> 32 word \<times> string option option \<times> char list" where
  "parse_mount_options cfg mem options unrecognized =
     parse_mount_options_loop cfg mem options MS_SILENT unrecognized"

section \<open>The world outside\<close>

text \<open>
  A pointer to a string is modelled by the string. For the pointers that the code hands
  to \<open>free\<close>, the model also says where the pointer points: nowhere (the null pointer),
  at the start of a block that \<open>malloc\<close> returned (blocks are named by numbers), or at
  memory that \<open>malloc\<close> did not return (an element of \<open>argv\<close>, the buffer that
  \<open>getmntent_r\<close> fills, a string literal).
\<close>

datatype origin = Null | Heap nat | Foreign

text \<open>A \<open>struct mntent\<close>, with the four fields \<open>mount.c\<close> uses. The type may be the null
  pointer. \<open>fsname_at\<close> and \<open>opts_at\<close> say where \<open>mnt_fsname\<close> and \<open>mnt_opts\<close> point; when
  \<open>mnt_fsname\<close> is the null pointer its text is empty and is not read.\<close>

record mntent =
  mnt_fsname :: string
  mnt_dir :: string
  mnt_type :: "string option"
  mnt_opts :: string
  fsname_at :: origin
  opts_at :: origin

text \<open>The arguments of one \<open>mount(2)\<close> call.\<close>

record mount_call =
  mc_source :: string
  mc_target :: "string option"
  mc_fstype :: "string option"
  mc_flags :: "32 word"
  mc_data :: "string option"

datatype file_kind = Regular | Directory | Other_kind

text \<open>
  Everything the program asks of the system is a parameter. The answers may depend on
  the \<open>mount(2)\<close> calls made so far.
  \<^item> \<open>sys_mount\<close>: \<open>None\<close> when the call succeeds, \<open>Some e\<close> when it fails with
    \<open>errno = e\<close>;
  \<^item> \<open>sys_lstat\<close>: the kind of the file, or the \<open>errno\<close> of the failure;
  \<^item> \<open>sys_fopen\<close>: the text of a file opened for reading, or the \<open>errno\<close> of the failure;
  \<^item> \<open>gethostbyname\<close>: the first four bytes of \<open>h_addr\<close> as C \<open>char\<close> values, or
    \<open>None\<close> for the null pointer;
  \<^item> \<open>nfsmount\<close>: its return code and the \<open>errno\<close> it leaves;
  \<^item> \<open>set_loop\<close>: its return code, the device it stored, and the \<open>errno\<close> it leaves;
  \<^item> \<open>del_loop\<close>: the \<open>errno\<close> it leaves;
  \<^item> \<open>bb_simplify_path\<close>: the canonical form of a path;
  \<^item> \<open>fstab\<close>: the records \<open>getmntent_r\<close> reads from \<open>/etc/fstab\<close>, or \<open>None\<close> when
    \<open>setmntent\<close> cannot open it.
\<close>

record env =
  build :: config
  sys_mount :: "mount_call list \<Rightarrow> mount_call \<Rightarrow> int option"
  sys_lstat :: "mount_call list \<Rightarrow> string \<Rightarrow> int + file_kind"
  sys_fopen :: "mount_call list \<Rightarrow> string \<Rightarrow> int + string"
  gethostbyname :: "string \<Rightarrow> (int \<times> int \<times> int \<times> int) option"
  nfsmount :: "mount_call list \<Rightarrow> mntent \<Rightarrow> 32 word \<Rightarrow> string option \<Rightarrow> int \<times> int"
  set_loop :: "mount_call list \<Rightarrow> string \<Rightarrow> int \<times> string \<times> int"
  del_loop :: "mount_call list \<Rightarrow> string \<Rightarrow> int"
  bb_simplify_path :: "string \<Rightarrow> string"
  fstab :: "mntent list option"

text \<open>
  The state the program changes: \<open>errno\<close>, the log of \<open>mount(2)\<close> calls (oldest first),
  the global \<open>fslist\<close> (the empty list is the null pointer), the globals \<open>useMtab\<close> and
  \<open>fakeIt\<close>, the records of the legacy mount table \<open>/etc/mtab\<close> (\<open>None\<close> when it cannot be
  opened), what was written to standard error and standard output, and the memory
  from \<open>malloc\<close>: \<open>live\<close> holds the blocks that were returned and not freed since, \<open>brk\<close>
  is the name the next block gets. A name is never given twice, so a pointer to a freed
  block stays recognisable.

  \<open>live\<close> follows the blocks behind \<open>mnt_fsname\<close>, \<open>mnt_opts\<close> and \<open>cmdopts\<close>, the pointers
  that reach \<open>free\<close> from more than one place. The other blocks (\<open>filteropts\<close>,
  \<open>loopFile\<close>, \<open>storage_path\<close>, the lines and the entries of the filesystem list) have one
  owner each, which frees them at most once and does not read them afterwards: their
  \<open>free\<close> is always defined and changes nothing that is observed here.
\<close>

record world =
  errno :: int
  mounts :: "mount_call list"
  fslist :: "string list"
  useMtab :: bool
  fakeIt :: bool
  mtab :: "mntent list option"
  messages :: "string list"
  printed :: "string list"
  live :: "nat set"
  brk :: nat

text \<open>A call returns, or ends the process (\<open>bb_error_msg_and_die\<close>), or leaves the
  behaviour that C defines: \<open>free\<close> of a pointer that \<open>malloc\<close> did not return or that
  was freed before, or a read of freed memory. What the machine does from there on
  (the C library usually aborts in \<open>free\<close>) is not modelled.\<close>

datatype 'a outcome = Died string | Undefined | Returned 'a

definition bb_error_msg :: "string \<Rightarrow> world \<Rightarrow> world" where
  "bb_error_msg msg w = w\<lparr>messages := messages w @ [msg]\<rparr>"

text \<open>Modelled from the spec: the text of \<open>bb_msg_perm_denied_are_you_root\<close> is defined in
  libbb, not in \<open>mount.c\<close>; the specification calls it the "are you root?" diagnostic.\<close>

definition bb_msg_perm_denied_are_you_root :: string where
  "bb_msg_perm_denied_are_you_root = ''permission denied. (are you root?)''"

definition bb_path_mtab_file :: string where
  "bb_path_mtab_file = ''/etc/mtab''"

text \<open>\<open>mount(2)\<close>: the call is logged; a failure returns -1 and sets \<open>errno\<close>.\<close>

definition mount :: "env \<Rightarrow> mount_call \<Rightarrow> world \<Rightarrow> int \<times> world" where
  "mount E c w =
     (case sys_mount E (mounts w) c of
        None \<Rightarrow> (0, w\<lparr>mounts := mounts w @ [c]\<rparr>)
      | Some e \<Rightarrow> (- 1, w\<lparr>errno := e, mounts := mounts w @ [c]\<rparr>))"

section \<open>Memory\<close>

text \<open>A new block (\<open>xstrdup\<close>, \<open>xasprintf\<close>): its name and the state with the block
  live. These functions end the process when memory runs out; here it never does.\<close>

definition xmalloc :: "world \<Rightarrow> nat \<times> world" where
  "xmalloc w = (brk w, w\<lparr>live := insert (brk w) (live w), brk := Suc (brk w)\<rparr>)"

text \<open>\<open>free\<close>: nothing happens for the null pointer, a live block is taken back, and
  anything else has no defined behaviour (\<open>None\<close>).\<close>

definition free :: "origin \<Rightarrow> world \<Rightarrow> world option" where
  "free p w =
     (case p of
        Null \<Rightarrow> Some w
      | Heap a \<Rightarrow> if a \<in> live w then Some (w\<lparr>live := live w - {a}\<rparr>) else None
      | Foreign \<Rightarrow> None)"

text \<open>Whether a string can be read through a pointer.\<close>

definition readable :: "origin \<Rightarrow> world \<Rightarrow> bool" where
  "readable p w = (case p of Null \<Rightarrow> False | Heap a \<Rightarrow> a \<in> live w | Foreign \<Rightarrow> True)"

section \<open>append_mount_options\<close>

text \<open>The new value of \<open>*oldopts\<close>, or \<open>None\<close> when the \<open>free\<close> of the old value is not
  defined. In the first branch the new string is built before the old one is freed.\<close>

definition append_mount_options ::
  "config \<Rightarrow> string \<times> origin \<Rightarrow> string \<Rightarrow> world \<Rightarrow> (string \<times> origin) option \<times> world" where
  "append_mount_options cfg oldopts newopts w =
     (case oldopts of
        (old, at) \<Rightarrow>
          if at \<noteq> Null \<and> old \<noteq> [] then
            (case xmalloc w of
               (a, w1) \<Rightarrow>
                 (case free at w1 of
                    None \<Rightarrow> (None, w1)
                  | Some w2 \<Rightarrow> (Some (old @ '','' @ newopts, Heap a), w2)))
          else
            (case (if ENABLE_FEATURE_CLEAN_UP cfg then free at w else Some w) of
               None \<Rightarrow> (None, w)
             | Some w1 \<Rightarrow>
                 (case xmalloc w1 of (a, w2) \<Rightarrow> (Some (newopts, Heap a), w2))))"

section \<open>get_block_backed_filesystems\<close>

text \<open>Splitting a string at every occurrence of a separator; an empty string is one
  empty token.\<close>

fun split_on :: "char \<Rightarrow> string \<Rightarrow> string list" where
  "split_on c [] = [[]]"
| "split_on c (x # xs) =
     (if x = c then [] # split_on c xs
      else (case split_on c xs of [] \<Rightarrow> [[x]] | t # ts \<Rightarrow> (x # t) # ts))"

text \<open>Modelled from the spec: \<open>bb_get_chomped_line_from_file\<close> is defined in libbb, not in
  \<open>mount.c\<close>. The candidate files are read line by line: the text is cut behind every
  newline and the newline is removed; a last line without newline counts, the empty rest
  behind the last newline does not. Each line is handed over as a C string, so it ends
  at its first NUL byte, if it has one.\<close>

definition chomped_lines :: "string \<Rightarrow> string list" where
  "chomped_lines text =
     (let ls = split_on CHR 0x0A text
      in map (takeWhile (\<lambda>c. c \<noteq> NUL)) (if last ls = [] then butlast ls else ls))"

text \<open>\<open>isspace\<close> in the C locale.\<close>

definition isspace :: "char \<Rightarrow> bool" where
  "isspace c = (c = CHR 0x20 \<or> c = CHR 0x09 \<or> c = CHR 0x0A \<or> c = CHR 0x0B \<or> c = CHR 0x0C
                \<or> c = CHR 0x0D)"

text \<open>The byte at an index of a C string: the terminator stands behind the last
  character.\<close>

definition c_at :: "string \<Rightarrow> nat \<Rightarrow> char" where
  "c_at s i = (if i < length s then s ! i else NUL)"

text \<open>The inner loop over the lines of one file; \<open>list\<close> is the list built so far.\<close>

fun block_backed_lines :: "string list \<Rightarrow> string list \<Rightarrow> string list" where
  "block_backed_lines list [] = list"
| "block_backed_lines list (buf # bufs) =
     (if take 5 buf = ''nodev'' \<and> isspace (c_at buf 5) then block_backed_lines list bufs
      else
        (let fs = dropWhile isspace buf
         in if c_at fs 0 = CHR ''#'' \<or> c_at fs 0 = CHR ''*'' then block_backed_lines list bufs
            else if c_at fs 0 = NUL then block_backed_lines list bufs
            else block_backed_lines (list @ [fs]) bufs))"

text \<open>The outer loop over the two files; a file that cannot be opened is skipped and
  leaves its \<open>errno\<close>.\<close>

fun block_backed_files :: "env \<Rightarrow> string list \<Rightarrow> string list \<Rightarrow> world \<Rightarrow> string list \<times> world"
  where
  "block_backed_files E [] list w = (list, w)"
| "block_backed_files E (path # paths) list w =
     (case sys_fopen E (mounts w) path of
        Inl e \<Rightarrow> block_backed_files E paths list (w\<lparr>errno := e\<rparr>)
      | Inr text \<Rightarrow> block_backed_files E paths (block_backed_lines list (chomped_lines text)) w)"

definition get_block_backed_filesystems :: "env \<Rightarrow> world \<Rightarrow> string list \<times> world" where
  "get_block_backed_filesystems E w =
     block_backed_files E [''/etc/filesystems'', ''/proc/filesystems''] [] w"

section \<open>mount_it_now\<close>

text \<open>The \<open>for(;;)\<close> loop: mount, and fall back to read-only when the mount fails with
  \<open>EACCES\<close> or \<open>EROFS\<close> and was not read-only. Returns the last return code.\<close>

function mount_retry ::
  "env \<Rightarrow> mntent \<Rightarrow> 32 word \<Rightarrow> string option \<Rightarrow> world \<Rightarrow> int \<times> world" where
  "mount_retry E mp vfsflags filteropts w =
     (case mount E \<lparr>mc_source = mnt_fsname mp, mc_target = Some (mnt_dir mp),
                     mc_fstype = mnt_type mp, mc_flags = vfsflags, mc_data = filteropts\<rparr> w of
        (rc, w1) \<Rightarrow>
          if rc = 0 \<or> vfsflags AND MS_RDONLY \<noteq> 0 \<or> (errno w1 \<noteq> EACCES \<and> errno w1 \<noteq> EROFS)
          then (rc, w1)
          else mount_retry E mp (vfsflags OR MS_RDONLY) filteropts
                 (bb_error_msg (mnt_fsname mp @ '' is write-protected, mounting read-only'') w1))"
  by pat_completeness auto
termination mount_retry
proof (relation "measure (\<lambda>(E, mp, vfsflags, filteropts, w). if vfsflags AND MS_RDONLY = 0 then 1 else 0)")
  show "wf (measure (\<lambda>(E, mp, vfsflags, filteropts, w).
              if vfsflags AND MS_RDONLY = (0 :: 32 word) then 1 else (0 :: nat)))"
    by simp
next
  fix E :: env and mp :: mntent and vfsflags :: "32 word" and filteropts :: "string option"
    and w :: world and x :: "int \<times> world" and rc :: int and w1 :: world
  assume "\<not> (rc = 0 \<or> vfsflags AND MS_RDONLY \<noteq> 0 \<or> (errno w1 \<noteq> EACCES \<and> errno w1 \<noteq> EROFS))"
  then have a: "vfsflags AND MS_RDONLY = 0" by simp
  have b: "(vfsflags OR MS_RDONLY) AND MS_RDONLY \<noteq> 0"
    by (simp add: MS_RDONLY_def word_ao_absorbs)
  from a b
  show "((E, mp, vfsflags OR MS_RDONLY, filteropts,
          bb_error_msg (mnt_fsname mp @ '' is write-protected, mounting read-only'') w1),
         (E, mp, vfsflags, filteropts, w))
        \<in> measure (\<lambda>(E, mp, vfsflags, filteropts, w).
              if vfsflags AND MS_RDONLY = 0 then 1 else 0)"
    by simp
qed

declare mount_retry.simps [simp del]

text \<open>"Add vfs string flags": the loop over the table up to the \<open>remount\<close> entry, with
  \<open>append_mount_options\<close> on \<open>mp->mnt_opts\<close> for every entry with a positive mask. Every
  table ends with the \<open>remount\<close> entry, so the index never leaves the table. \<open>None\<close>: a
  call of \<open>append_mount_options\<close> was not defined.\<close>

fun add_vfs_string_flags ::
  "config \<Rightarrow> (string \<times> 32 word) list \<Rightarrow> mntent \<Rightarrow> world \<Rightarrow> mntent option \<times> world" where
  "add_vfs_string_flags cfg [] mp w = (Some mp, w)"
| "add_vfs_string_flags cfg ((name, fl) # rest) mp w =
     (if fl = MS_REMOUNT then (Some mp, w)
      else if 0 <s fl then
        (case append_mount_options cfg (mnt_opts mp, opts_at mp) name w of
           (None, w1) \<Rightarrow> (None, w1)
         | (Some (s, at), w1) \<Rightarrow>
             add_vfs_string_flags cfg rest (mp\<lparr>mnt_opts := s, opts_at := at\<rparr>) w1)
      else add_vfs_string_flags cfg rest mp w)"

text \<open>The block that maintains the old-style mtab. The call of \<open>addmntent\<close> is commented
  out in the source, so the table is opened and closed and nothing is written to it.
  \<open>None\<close>: the block left defined behaviour while it rebuilt the options.\<close>

definition update_mtab :: "env \<Rightarrow> mntent \<Rightarrow> world \<Rightarrow> mntent option \<times> world" where
  "update_mtab E mp w =
     (let w1 = (case mtab w of None \<Rightarrow> bb_error_msg (''no '' @ bb_path_mtab_file) w
                | Some t \<Rightarrow> w)
      in case add_vfs_string_flags (build E) (mount_options (build E)) mp w1 of
           (None, w2) \<Rightarrow> (None, w2)
         | (Some mp1, w2) \<Rightarrow>
             (let i = length (mnt_dir mp1);
                  mp2 = (if 1 < i \<and> mnt_dir mp1 ! (i - 1) = CHR ''/''
                         then mp1\<lparr>mnt_dir := take (i - 1) (mnt_dir mp1)\<rparr> else mp1);
                  mp3 = (if mnt_type mp2 = None \<or> mnt_type mp2 = Some []
                         then mp2\<lparr>mnt_type := Some ''--bind''\<rparr> else mp2);
                  mp4 = (if ENABLE_FEATURE_CLEAN_UP (build E) \<and> mnt_type mp3 \<noteq> Some ''--bind''
                         then mp3\<lparr>mnt_type := None\<rparr> else mp3)
              in (Some mp4, w2)))"

definition mount_it_now ::
  "env \<Rightarrow> mntent \<Rightarrow> 32 word \<Rightarrow> string option \<Rightarrow> world \<Rightarrow> int outcome \<times> mntent \<times> world"
  where
  "mount_it_now E mp vfsflags filteropts w =
     (if ENABLE_FEATURE_MTAB_SUPPORT (build E) \<and> fakeIt w then (Returned 0, mp, w)
      else
        (case mount_retry E mp vfsflags filteropts w of
           (rc, w1) \<Rightarrow>
             if rc \<noteq> 0 \<and> errno w1 = EPERM
             then (Died bb_msg_perm_denied_are_you_root, mp, w1)
             else if ENABLE_FEATURE_MTAB_SUPPORT (build E) \<and> useMtab w1 \<and> rc = 0
             then (case update_mtab E mp w1 of
                     (None, w2) \<Rightarrow> (Undefined, mp, w2)
                   | (Some mp1, w2) \<Rightarrow> (Returned rc, mp1, w2))
             else (Returned rc, mp, w1)))"

section \<open>singlemount\<close>

text \<open>\<open>sprintf("%d")\<close> of a C \<open>char\<close>.\<close>

function show_nat :: "nat \<Rightarrow> string" where
  "show_nat n =
     (if n < 10 then [char_of (48 + n)] else show_nat (n div 10) @ [char_of (48 + n mod 10)])"
  by pat_completeness auto
termination show_nat
  by (relation "measure (\<lambda>n. n)") auto

declare show_nat.simps [simp del]

definition show_int :: "int \<Rightarrow> string" where
  "show_int i = (if i < 0 then CHR ''-'' # show_nat (nat (- i)) else show_nat (nat i))"

definition BACKSLASH :: char where "BACKSLASH = CHR 0x5C"

text \<open>\<open>strrchr\<close>: the index of the last occurrence of a character in a string.\<close>

definition strrchr :: "string \<Rightarrow> char \<Rightarrow> nat option" where
  "strrchr s c =
     (case filter (\<lambda>i. s ! i = c) (rev [0 ..< length s]) of [] \<Rightarrow> None | i # _ \<Rightarrow> Some i)"

text \<open>The label \<open>report_error\<close>: a failure with \<open>errno = EBUSY\<close> counts as success when
  the caller tolerates busy; a negative code is reported, and the report reads the
  source name of the request. (\<open>filteropts\<close> is freed here by its one owner.)\<close>

definition report_error ::
  "mntent \<Rightarrow> bool \<Rightarrow> int \<Rightarrow> world \<Rightarrow> int outcome \<times> mntent \<times> world" where
  "report_error mp ignore_busy rc w =
     (let rc1 = (if rc \<noteq> 0 \<and> errno w = EBUSY \<and> ignore_busy then 0 else rc)
      in if rc1 < 0
         then (if readable (fsname_at mp) w
               then (Returned rc1, mp,
                     bb_error_msg
                       (''mounting '' @ mnt_fsname mp @ '' on '' @ mnt_dir mp @ '' failed'') w)
               else (Undefined, mp, w))
         else (Returned rc1, mp, w))"

text \<open>The CIFS branch. The source string starts with two equal separators, so after
  the separators are normalised \<open>strrchr\<close> finds a backslash at index 1 or later. The
  new source name is built first; then, in a build that cleans up, the old source name
  is handed to \<open>free\<close>.\<close>

definition singlemount_cifs ::
  "env \<Rightarrow> mntent \<Rightarrow> 32 word \<Rightarrow> string option \<Rightarrow> bool \<Rightarrow> world
     \<Rightarrow> int outcome \<times> mntent \<times> world" where
  "singlemount_cifs E mp vfsflags filteropts ignore_busy w =
     (let unc = map (\<lambda>c. if c = CHR ''/'' then BACKSLASH else c) (mnt_fsname mp);
          mp1 = mp\<lparr>mnt_fsname := unc\<rparr>
      in case strrchr unc BACKSLASH of
           None \<Rightarrow> (Undefined, mp1, w)
         | Some s \<Rightarrow>
             if s = 1 then report_error mp1 ignore_busy 1 w
             else
               (case gethostbyname E (take (s - 2) (drop 2 unc)) of
                  None \<Rightarrow> report_error mp1 ignore_busy 1 w
                | Some (a0, a1, a2, a3) \<Rightarrow>
                    (let ip = ''ip='' @ show_int a0 @ ''.'' @ show_int a1 @ ''.'' @ show_int a2
                                @ ''.'' @ show_int a3;
                         filteropts1 =
                           (case fst (snd (parse_mount_options (build E) (in_memory ip) 0
                                             (Some filteropts))) of
                              Some f \<Rightarrow> f
                            | None \<Rightarrow> filteropts)
                     in case xmalloc w of
                          (a, w1) \<Rightarrow>
                            (case (if ENABLE_FEATURE_CLEAN_UP (build E)
                                   then free (fsname_at mp1) w1 else Some w1) of
                               None \<Rightarrow> (Undefined, mp1, w1)
                             | Some w2 \<Rightarrow>
                                 (case mount_it_now E
                                         (mp1\<lparr>mnt_fsname :=
                                                 [BACKSLASH, BACKSLASH] @ drop 3 ip
                                                   @ dropWhile (\<lambda>c. c \<noteq> BACKSLASH) (drop 2 unc),
                                               fsname_at := Heap a,
                                               mnt_type := Some ''cifs''\<rparr>)
                                         (vfsflags OR MS_MANDLOCK) filteropts1 w2 of
                                    (Died msg, mp3, w3) \<Rightarrow> (Died msg, mp3, w3)
                                  | (Undefined, mp3, w3) \<Rightarrow> (Undefined, mp3, w3)
                                  | (Returned rc, mp3, w3) \<Rightarrow>
                                      report_error mp3 ignore_busy rc w3)))))"

text \<open>"Look at the file": \<open>Inl\<close> is the early \<open>return errno\<close> after a failed loop setup,
  \<open>Inr\<close> carries on with the request, the flags and the loop file (if any). The source
  name is set to the null pointer before \<open>set_loop\<close> stores the name of the device in a
  new block; after a failed setup the model leaves it null.\<close>

definition singlemount_lstat ::
  "env \<Rightarrow> mntent \<Rightarrow> 32 word \<Rightarrow> world
     \<Rightarrow> (int \<times> mntent \<times> world) + (mntent \<times> 32 word \<times> string option \<times> world)" where
  "singlemount_lstat E mp vfsflags w =
     (case sys_lstat E (mounts w) (mnt_fsname mp) of
        Inl e \<Rightarrow> Inr (mp, vfsflags, None, w\<lparr>errno := e\<rparr>)
      | Inr kind \<Rightarrow>
          if vfsflags AND (MS_REMOUNT OR MS_BIND OR MS_MOVE) \<noteq> 0 then Inr (mp, vfsflags, None, w)
          else if ENABLE_FEATURE_MOUNT_LOOP (build E) \<and> kind = Regular then
            (let loopFile = bb_simplify_path E (mnt_fsname mp)
             in case set_loop E (mounts w) loopFile of
                  (r, device, e) \<Rightarrow>
                    if r = 0 \<or> r = 1
                    then (case xmalloc (w\<lparr>errno := e\<rparr>) of
                            (a, w1) \<Rightarrow>
                              Inr (mp\<lparr>mnt_fsname := device, fsname_at := Heap a\<rparr>, vfsflags,
                                   Some loopFile, w1))
                    else Inl (e, mp\<lparr>mnt_fsname := [], fsname_at := Null\<rparr>,
                              bb_error_msg
                                (if e = EPERM \<or> e = EACCES then bb_msg_perm_denied_are_you_root
                                 else ''cannot setup loop device'')
                                (w\<lparr>errno := e\<rparr>)))
          else if kind = Directory \<and> mnt_type mp = None
          then Inr (mp, vfsflags OR MS_BIND, None, w)
          else Inr (mp, vfsflags, None, w))"

text \<open>The loop through the filesystem types "until mount succeeds or we run out";
  \<open>rc\<close> is the code of the last attempt.\<close>

fun singlemount_autodetect ::
  "env \<Rightarrow> mntent \<Rightarrow> 32 word \<Rightarrow> string option \<Rightarrow> string list \<Rightarrow> int \<Rightarrow> world
     \<Rightarrow> int outcome \<times> mntent \<times> world" where
  "singlemount_autodetect E mp vfsflags filteropts [] rc w = (Returned rc, mp, w)"
| "singlemount_autodetect E mp vfsflags filteropts (fl # fls) rc w =
     (case mount_it_now E (mp\<lparr>mnt_type := Some fl\<rparr>) vfsflags filteropts w of
        (Died msg, mp1, w1) \<Rightarrow> (Died msg, mp1, w1)
      | (Undefined, mp1, w1) \<Rightarrow> (Undefined, mp1, w1)
      | (Returned rc1, mp1, w1) \<Rightarrow>
          if rc1 = 0 then (Returned rc1, mp1, w1)
          else singlemount_autodetect E (mp1\<lparr>mnt_type := None\<rparr>) vfsflags filteropts fls rc1 w1)"

text \<open>"If we know the fstype (or don't need to), jump straight to the actual mount",
  else fill \<open>fslist\<close> if it is empty and loop through it.\<close>

definition singlemount_mount ::
  "env \<Rightarrow> mntent \<Rightarrow> 32 word \<Rightarrow> string option \<Rightarrow> world \<Rightarrow> int outcome \<times> mntent \<times> world" where
  "singlemount_mount E mp vfsflags filteropts w =
     (if mnt_type mp \<noteq> None \<or> vfsflags AND (MS_REMOUNT OR MS_BIND OR MS_MOVE) \<noteq> 0
      then mount_it_now E mp vfsflags filteropts w
      else
        (let w1 = (if fslist w = []
                   then (case get_block_backed_filesystems E w of
                           (l, w') \<Rightarrow> w'\<lparr>fslist := l\<rparr>)
                   else w)
         in singlemount_autodetect E mp vfsflags filteropts (fslist w1) (- 1) w1))"

text \<open>"If mount failed, clean up loop file (if any)": the loop device is released, and
  in a build that cleans up the name of the device is freed, before \<open>report_error\<close>
  reads it.\<close>

definition singlemount_del_loop ::
  "env \<Rightarrow> mntent \<Rightarrow> string option \<Rightarrow> int \<Rightarrow> world \<Rightarrow> world option" where
  "singlemount_del_loop E mp loopFile rc w =
     (if ENABLE_FEATURE_MOUNT_LOOP (build E) \<and> rc \<noteq> 0 \<and> loopFile \<noteq> None
      then (let w1 = w\<lparr>errno := del_loop E (mounts w) (mnt_fsname mp)\<rparr>
            in if ENABLE_FEATURE_CLEAN_UP (build E) then free (fsname_at mp) w1 else Some w1)
      else Some w)"

text \<open>The local path: look at the file, mount, clean up the loop device after a
  failure, and report.\<close>

definition singlemount_local ::
  "env \<Rightarrow> mntent \<Rightarrow> 32 word \<Rightarrow> string option \<Rightarrow> bool \<Rightarrow> world
     \<Rightarrow> int outcome \<times> mntent \<times> world" where
  "singlemount_local E mp vfsflags filteropts ignore_busy w =
     (case singlemount_lstat E mp vfsflags w of
        Inl (e, mp1, w1) \<Rightarrow> (Returned e, mp1, w1)
      | Inr (mp2, vfsflags2, loopFile, w1) \<Rightarrow>
          (case singlemount_mount E mp2 vfsflags2 filteropts w1 of
             (Died msg, mp3, w2) \<Rightarrow> (Died msg, mp3, w2)
           | (Undefined, mp3, w2) \<Rightarrow> (Undefined, mp3, w2)
           | (Returned rc, mp3, w2) \<Rightarrow>
               (case singlemount_del_loop E mp3 loopFile rc w2 of
                  None \<Rightarrow> (Undefined, mp3, w2)
                | Some w3 \<Rightarrow> report_error mp3 ignore_busy rc w3)))"

text \<open>The three branches, in the order of the source: CIFS, NFS, local. Reading
  \<open>mnt_fsname[1]\<close> of an empty string is outside the string; the test is false there
  whatever that byte is, since \<open>mnt_fsname[0]\<close> is the terminator.\<close>

definition singlemount_branch ::
  "env \<Rightarrow> mntent \<Rightarrow> 32 word \<Rightarrow> string option \<Rightarrow> bool \<Rightarrow> world
     \<Rightarrow> int outcome \<times> mntent \<times> world" where
  "singlemount_branch E mp vfsflags filteropts ignore_busy w =
     (if ENABLE_FEATURE_MOUNT_CIFS (build E)
         \<and> (mnt_type mp = None \<or> mnt_type mp = Some ''cifs'')
         \<and> c_at (mnt_fsname mp) 0 = c_at (mnt_fsname mp) 1
         \<and> (c_at (mnt_fsname mp) 0 = CHR ''/'' \<or> c_at (mnt_fsname mp) 0 = BACKSLASH)
      then singlemount_cifs E mp vfsflags filteropts ignore_busy w
      else if ENABLE_FEATURE_MOUNT_NFS (build E)
         \<and> (mnt_type mp = None \<or> mnt_type mp = Some ''nfs'')
         \<and> CHR '':'' \<in> set (mnt_fsname mp)
      then (case nfsmount E (mounts w) mp vfsflags filteropts of
              (rc, e) \<Rightarrow> report_error mp ignore_busy rc (w\<lparr>errno := e\<rparr>))
      else singlemount_local E mp vfsflags filteropts ignore_busy w)"

text \<open>\<open>singlemount\<close> returns its code together with the request as it leaves it in the
  caller's \<open>struct mntent\<close>.\<close>

definition singlemount ::
  "env \<Rightarrow> mntent \<Rightarrow> bool \<Rightarrow> world \<Rightarrow> int outcome \<times> mntent \<times> world" where
  "singlemount E mp0 ignore_busy w =
     (case parse_mount_options (build E) (in_memory (mnt_opts mp0)) 0 (Some None) of
        (vfsflags, u, mem) \<Rightarrow>
          (let filteropts = (case u of Some f \<Rightarrow> f | None \<Rightarrow> None);
               mp1 = mp0\<lparr>mnt_opts := c_string mem 0\<rparr>;
               mp = (if mnt_type mp1 = Some ''auto'' then mp1\<lparr>mnt_type := None\<rparr> else mp1)
           in singlemount_branch E mp vfsflags filteropts ignore_busy w))"

section \<open>mount_main\<close>

text \<open>
  \<open>mount_main\<close> from behind its \<open>getopt\<close> loop: \<open>cmdopts\<close> holds the merged \<open>-o\<close> options,
  \<open>fstype\<close> the argument of \<open>-t\<close>, \<open>all\<close> the flag \<open>-a\<close>, \<open>args\<close> the arguments
  \<open>argv[optind]\<close> up to \<open>argv[argc - 1]\<close>, and \<open>behind\<close> the entry \<open>argv[argc]\<close>: the first
  pass moves the arguments that are not long options to the front and lowers \<open>argc\<close>, so
  \<open>argv[argc]\<close> is the null pointer when no long option was given and an entry the pass
  left behind otherwise. (\<open>optind - argc > 2\<close> never holds, so the usage check behind the
  loop does nothing.)

  \<open>mtpair\<close> is the array of two records, \<open>None\<close> for a slot still zeroed by \<open>memset\<close>;
  \<open>mtcur\<close> is the index of the slot \<open>getmntent_r\<close> fills next.
\<close>

definition mtnext_of :: "nat \<Rightarrow> nat" where
  "mtnext_of mtcur = (if mtcur = 0 then 1 else 0)"

definition slot :: "mntent option \<times> mntent option \<Rightarrow> nat \<Rightarrow> mntent option" where
  "slot mtpair i = (if i = 0 then fst mtpair else snd mtpair)"

definition store_slot ::
  "mntent option \<times> mntent option \<Rightarrow> nat \<Rightarrow> mntent \<Rightarrow> mntent option \<times> mntent option" where
  "store_slot mtpair i r = (if i = 0 then (Some r, snd mtpair) else (fst mtpair, Some r))"

text \<open>"Mount the last thing we found": the options of the record are copied into a new
  block, the options of the command line are appended, the record is mounted, and
  the options the record then has are freed.\<close>

definition mount_last_found :: "env \<Rightarrow> string \<Rightarrow> mntent \<Rightarrow> world \<Rightarrow> int outcome \<times> world" where
  "mount_last_found E cmdopts m w =
     (case xmalloc w of
        (a, w1) \<Rightarrow>
          (case append_mount_options (build E) (mnt_opts m, Heap a) cmdopts w1 of
             (None, w2) \<Rightarrow> (Undefined, w2)
           | (Some (s, at), w2) \<Rightarrow>
               (case singlemount E (m\<lparr>mnt_opts := s, opts_at := at\<rparr>) False w2 of
                  (Died msg, m1, w3) \<Rightarrow> (Died msg, w3)
                | (Undefined, m1, w3) \<Rightarrow> (Undefined, w3)
                | (Returned rc, m1, w3) \<Rightarrow>
                    (case free (opts_at m1) w3 of
                       None \<Rightarrow> (Undefined, w3)
                     | Some w4 \<Rightarrow> (Returned rc, w4)))))"

fun mount_main_loop ::
  "env \<Rightarrow> string \<Rightarrow> string option \<Rightarrow> string option \<Rightarrow> string option \<Rightarrow> string \<Rightarrow> mntent list
     \<Rightarrow> mntent option \<times> mntent option \<Rightarrow> nat \<Rightarrow> int \<Rightarrow> world \<Rightarrow> int outcome \<times> world" where
  "mount_main_loop E cmdopts fstype target storage_path fstabname [] mtpair mtcur rc w =
     (case target of
        None \<Rightarrow> (Returned rc, w)
      | Some t \<Rightarrow>
          (case slot mtpair (mtnext_of mtcur) of
             None \<Rightarrow> (Died (''can'' @ [CHR 0x27] @ ''t find '' @ t @ '' in '' @ fstabname), w)
           | Some m \<Rightarrow> mount_last_found E cmdopts m w))"
| "mount_main_loop E cmdopts fstype target storage_path fstabname (r # rs) mtpair mtcur rc w =
     (let mtpair1 = store_slot mtpair mtcur r
      in case target of
           Some t \<Rightarrow>
             if t \<noteq> mnt_fsname r \<and> storage_path \<noteq> Some (mnt_fsname r)
                \<and> t \<noteq> mnt_dir r \<and> storage_path \<noteq> Some (mnt_dir r)
             then mount_main_loop E cmdopts fstype target storage_path fstabname rs mtpair1
                    mtcur rc w
             else mount_main_loop E cmdopts fstype target storage_path fstabname rs mtpair1
                    (mtnext_of mtcur) rc w
         | None \<Rightarrow>
             if fstype \<noteq> None \<and> mnt_type r \<noteq> fstype
             then mount_main_loop E cmdopts fstype target storage_path fstabname rs mtpair1
                    mtcur rc w
             else
               (case parse_mount_options (build E) (in_memory (mnt_opts r)) 0 None of
                  (fl, u, mem) \<Rightarrow>
                    (let r1 = r\<lparr>mnt_opts := c_string mem 0\<rparr>
                     in if fl AND (MOUNT_NOAUTO OR MOUNT_SWAP) \<noteq> 0
                        then mount_main_loop E cmdopts fstype target storage_path fstabname rs
                               (store_slot mtpair mtcur r1) mtcur rc w
                        else
                          (case singlemount E r1 True w of
                             (Died msg, r2, w1) \<Rightarrow> (Died msg, w1)
                           | (Undefined, r2, w1) \<Rightarrow> (Undefined, w1)
                           | (Returned x, r2, w1) \<Rightarrow>
                               mount_main_loop E cmdopts fstype target storage_path fstabname
                                 rs (store_slot mtpair mtcur r2) mtcur
                                 (if x \<noteq> 0 then rc + 1 else rc) w1))))"

text \<open>The label \<open>clean_up\<close>, reached by the paths that return: in a build that cleans up,
  \<open>storage_path\<close> and \<open>cmdopts\<close> are freed. \<open>cmdopts_at\<close> is the pointer \<open>cmdopts\<close>.\<close>

definition clean_up :: "env \<Rightarrow> origin \<Rightarrow> int outcome \<times> world \<Rightarrow> int outcome \<times> world" where
  "clean_up E cmdopts_at r =
     (case r of
        (Died msg, w) \<Rightarrow> (Died msg, w)
      | (Undefined, w) \<Rightarrow> (Undefined, w)
      | (Returned rc, w) \<Rightarrow>
          if ENABLE_FEATURE_CLEAN_UP (build E)
          then (case free cmdopts_at w of
                  None \<Rightarrow> (Undefined, w)
                | Some w1 \<Rightarrow> (Returned rc, w1))
          else (Returned rc, w))"

text \<open>\<open>cmdopts\<close> is built by \<open>xstrdup\<close> and \<open>append_mount_options\<close>, so it starts a block
  from \<open>malloc\<close>; the arguments are elements of \<open>argv\<close>.\<close>

definition mount_main ::
  "env \<Rightarrow> string \<Rightarrow> string option \<Rightarrow> bool \<Rightarrow> string list \<Rightarrow> string option \<Rightarrow> world
     \<Rightarrow> int outcome \<times> world" where
  "mount_main E cmdopts fstype all args behind w0 =
     (case xmalloc w0 of
        (c, w) \<Rightarrow>
          if args = [] \<and> \<not> all then
            (case mtab w of
               None \<Rightarrow> (Died (''no '' @ bb_path_mtab_file), w)
             | Some records \<Rightarrow>
                 (Returned 0,
                  w\<lparr>printed := printed w @
                       map (\<lambda>m. mnt_fsname m @ '' on '' @ mnt_dir m @ '' type ''
                                  @ (case mnt_type m of Some t \<Rightarrow> t | None \<Rightarrow> ''(null)'')
                                  @ '' ('' @ mnt_opts m @ '')'')
                         (filter (\<lambda>m. mnt_fsname m \<noteq> ''rootfs''
                                       \<and> (fstype = None \<or> mnt_type m = fstype)) records)\<rparr>))
          else if length args = 2 then
            clean_up E (Heap c)
              (case singlemount E \<lparr>mnt_fsname = args ! 0, mnt_dir = args ! 1, mnt_type = fstype,
                                    mnt_opts = cmdopts, fsname_at = Foreign,
                                    opts_at = Heap c\<rparr> False w of
                 (out, m, w1) \<Rightarrow> (out, w1))
          else
            (let target = (case args of [] \<Rightarrow> behind | a # _ \<Rightarrow> Some a);
                 storage_path = (case args of [] \<Rightarrow> None | a # _ \<Rightarrow> Some (bb_simplify_path E a))
             in case parse_mount_options (build E) (in_memory cmdopts) 0 None of
                  (i, u, mem) \<Rightarrow>
                    if ENABLE_FEATURE_MOUNT_FLAGS (build E)
                       \<and> i AND (MS_SHARED OR MS_PRIVATE OR MS_SLAVE OR MS_UNBINDABLE) \<noteq> 0
                    then
                      (case mount E \<lparr>mc_source = [], mc_target = target, mc_fstype = Some [],
                                      mc_flags = i, mc_data = Some []\<rparr> w of
                         (rc, w1) \<Rightarrow>
                           if rc \<noteq> 0
                           then (Died (case target of Some t \<Rightarrow> t | None \<Rightarrow> ''(null)''), w1)
                           else clean_up E (Heap c) (Returned rc, w1))
                    else
                      (case parse_mount_options (build E) mem 0 None of
                         (j, u1, mem1) \<Rightarrow>
                           (let fstabname = (if j AND MS_REMOUNT \<noteq> 0 then bb_path_mtab_file
                                             else ''/etc/fstab'');
                                table = (if j AND MS_REMOUNT \<noteq> 0 then mtab w else fstab E)
                            in case table of
                                 None \<Rightarrow> (Died (''cannot read '' @ fstabname), w)
                               | Some records \<Rightarrow>
                                   clean_up E (Heap c)
                                     (mount_main_loop E (c_string mem1 0) fstype
                                        (case args of [] \<Rightarrow> None | a # _ \<Rightarrow> Some a)
                                        storage_path fstabname records (None, None) 0 0 w)))))"

section \<open>The option resolver as the specification words it\<close>

text \<open>Case-insensitive lookup in the option table: the mask of the first entry whose
  name equals the token once both are lower-cased.\<close>

definition option_mask :: "config \<Rightarrow> string \<Rightarrow> 32 word option" where
  "option_mask cfg tok =
     map_option snd (find (\<lambda>e. map tolower (fst e) = map tolower tok) (mount_options cfg))"

text \<open>A non-negative mask sets its bits, a negative mask keeps only its bits.\<close>

definition flag_effect :: "32 word \<Rightarrow> 32 word \<Rightarrow> 32 word" where
  "flag_effect acc m = (if 0 \<le> sint m then acc OR m else acc AND m)"

fun resolve_flags :: "config \<Rightarrow> 32 word \<Rightarrow> string list \<Rightarrow> 32 word" where
  "resolve_flags cfg acc [] = acc"
| "resolve_flags cfg acc (t # ts) =
     resolve_flags cfg (case option_mask cfg t of Some m \<Rightarrow> flag_effect acc m | None \<Rightarrow> acc) ts"

definition unmatched :: "config \<Rightarrow> string list \<Rightarrow> string list" where
  "unmatched cfg ts = filter (\<lambda>t. option_mask cfg t = None) ts"

text \<open>The collector, token by token: a comma goes in front of a token exactly when the
  string collected so far is not empty.\<close>

fun collect :: "string option \<Rightarrow> string list \<Rightarrow> string option" where
  "collect c [] = c"
| "collect c (t # ts) =
     collect (case c of None \<Rightarrow> Some t
              | Some old \<Rightarrow> if old = [] then Some t else Some (old @ '','' @ t)) ts"

text \<open>The collector read as a comma-separated list: the unmatched tokens, in input
  order, joined by commas behind what the collector held before.\<close>

fun join_commas :: "string list \<Rightarrow> string" where
  "join_commas [] = []"
| "join_commas [t] = t"
| "join_commas (t # ts) = t @ '','' @ join_commas ts"

definition collect_joined :: "string option \<Rightarrow> string list \<Rightarrow> string option" where
  "collect_joined c ts =
     (if ts = [] then c
      else Some (join_commas
                  ((case c of None \<Rightarrow> [] | Some old \<Rightarrow> if old = [] then [] else [old]) @ ts)))"

text \<open>\<open>resolve\<close>: the flags \<open>parse_mount_options\<close> returns for an option string, with no
  collector.\<close>

definition resolve :: "config \<Rightarrow> string \<Rightarrow> 32 word" where
  "resolve cfg s = fst (parse_mount_options cfg (in_memory s) 0 None)"


text \<open>One pass of the loop body on a token.\<close>

definition token_step ::
  "config \<Rightarrow> 32 word \<times> string option option \<Rightarrow> string \<Rightarrow> 32 word \<times> string option option"
  where
  "token_step cfg acc tok =
     (case find_option (mount_options cfg) tok of
        Some fl \<Rightarrow> (apply_flag (fst acc) fl, snd acc)
      | None \<Rightarrow> (fst acc, map_option (\<lambda>u. append_unrecognized u tok) (snd acc)))"

text \<open>The filesystem list as the specification words it: lines that start with
  \<open>nodev\<close> and a whitespace character, comment lines and blank lines are left out, the
  other lines are kept without their leading whitespace.\<close>

definition nodev_line :: "string \<Rightarrow> bool" where
  "nodev_line l = (take 5 l = ''nodev'' \<and> 5 < length l \<and> isspace (l ! 5))"

definition comment_line :: "string \<Rightarrow> bool" where
  "comment_line l =
     (case dropWhile isspace l of [] \<Rightarrow> False | c # cs \<Rightarrow> c = CHR ''#'' \<or> c = CHR ''*'')"

definition blank_line :: "string \<Rightarrow> bool" where
  "blank_line l = (dropWhile isspace l = [])"

definition kept_filesystems :: "string list \<Rightarrow> string list" where
  "kept_filesystems ls =
     map (dropWhile isspace)
       (filter (\<lambda>l. \<not> (nodev_line l \<or> comment_line l \<or> blank_line l)) ls)"

definition file_filesystems :: "env \<Rightarrow> mount_call list \<Rightarrow> string \<Rightarrow> string list" where
  "file_filesystems E hist path =
     (case sys_fopen E hist path of
        Inl e \<Rightarrow> []
      | Inr text \<Rightarrow> kept_filesystems (chomped_lines text))"

text \<open>The \<open>mount(2)\<close> call \<open>mount_it_now\<close> makes for a request with given flags.\<close>

definition attempt :: "mntent \<Rightarrow> 32 word \<Rightarrow> string option \<Rightarrow> mount_call" where
  "attempt mp vfsflags filteropts =
     \<lparr>mc_source = mnt_fsname mp, mc_target = Some (mnt_dir mp), mc_fstype = mnt_type mp,
      mc_flags = vfsflags, mc_data = filteropts\<rparr>"

text \<open>
  The log of \<open>mount(2)\<close> calls and \<open>EPERM\<close>. \<open>eperm_free E h new\<close>: none of the calls
  \<open>new\<close>, made one after the other from the log \<open>h\<close>, failed with \<open>EPERM\<close>.
  \<open>eperm_last E h new\<close>: the last call of \<open>new\<close> failed with \<open>EPERM\<close> and none before it
  did. \<open>eperm_fatal E h out h'\<close>: the log grew from \<open>h\<close> to \<open>h'\<close>, and either no new call
  failed with \<open>EPERM\<close>, or the process died with the "are you root?" diagnostic and
  the call that failed with \<open>EPERM\<close> is the last one made.
\<close>

fun eperm_free :: "env \<Rightarrow> mount_call list \<Rightarrow> mount_call list \<Rightarrow> bool" where
  "eperm_free E h [] = True"
| "eperm_free E h (c # cs) = (sys_mount E h c \<noteq> Some EPERM \<and> eperm_free E (h @ [c]) cs)"

fun eperm_last :: "env \<Rightarrow> mount_call list \<Rightarrow> mount_call list \<Rightarrow> bool" where
  "eperm_last E h [] = False"
| "eperm_last E h [c] = (sys_mount E h c = Some EPERM)"
| "eperm_last E h (c # cs) = (sys_mount E h c \<noteq> Some EPERM \<and> eperm_last E (h @ [c]) cs)"

definition eperm_fatal :: "env \<Rightarrow> mount_call list \<Rightarrow> int outcome \<Rightarrow> mount_call list \<Rightarrow> bool" where
  "eperm_fatal E h out h' =
     (take (length h) h' = h
      \<and> (eperm_free E h (drop (length h) h')
         \<or> (out = Died bb_msg_perm_denied_are_you_root \<and> eperm_last E h (drop (length h) h'))))"

text \<open>The table scan as the specification words it. A record matches a requested
  string when its source or its directory equals the string or the string's simplified
  path.\<close>

definition matches :: "string \<Rightarrow> string \<Rightarrow> mntent \<Rightarrow> bool" where
  "matches t sp r = (t = mnt_fsname r \<or> sp = mnt_fsname r \<or> t = mnt_dir r \<or> sp = mnt_dir r)"

text \<open>In "mount all" mode a record is skipped when a requested type differs from its own,
  or when its options resolve to flags with the \<open>noauto\<close> or the \<open>swap\<close> bit.\<close>

definition skipped :: "env \<Rightarrow> string option \<Rightarrow> mntent \<Rightarrow> bool" where
  "skipped E fstype r =
     ((fstype \<noteq> None \<and> mnt_type r \<noteq> fstype)
      \<or> resolve (build E) (mnt_opts r) AND (MOUNT_NOAUTO OR MOUNT_SWAP) \<noteq> 0)"

text \<open>The part of the state that the memory operations leave alone.\<close>

definition kept :: "world \<Rightarrow> world \<Rightarrow> bool" where
  "kept w w' = (mounts w' = mounts w \<and> mtab w' = mtab w \<and> fslist w' = fslist w)"

text \<open>The text of an option string with further options appended: a comma separates
  the two unless the string was empty.\<close>

definition joined_options :: "string \<Rightarrow> string \<Rightarrow> string" where
  "joined_options old new = (if old \<noteq> [] then old @ '','' @ new else new)"

text \<open>What "mount the last thing we found" hands to \<open>singlemount\<close>: the record with its
  options in a block of their own and the options of the command line appended, and
  the state after the two strings were built (the copy in block \<open>brk w\<close>, the joined
  string in the next block; the copy is freed, except that a build without clean-up
  keeps the copy of an empty string).\<close>

definition own_options :: "config \<Rightarrow> string \<Rightarrow> mntent \<Rightarrow> world \<Rightarrow> mntent \<times> world" where
  "own_options cfg cmdopts m w =
     (m\<lparr>mnt_opts := joined_options (mnt_opts m) cmdopts, opts_at := Heap (Suc (brk w))\<rparr>,
      w\<lparr>live := insert (Suc (brk w))
                  (if mnt_opts m = [] \<and> \<not> ENABLE_FEATURE_CLEAN_UP cfg
                   then insert (brk w) (live w) else live w - {brk w}),
        brk := Suc (Suc (brk w))\<rparr>)"

text \<open>The three decisions \<open>mount_main\<close> takes from the merged options: a shared-subtree
  flag bypasses the tables; \<open>remount\<close> selects the legacy mount table instead of
  \<open>/etc/fstab\<close>.\<close>

definition shared_subtree :: "config \<Rightarrow> string \<Rightarrow> bool" where
  "shared_subtree cfg cmdopts =
     (ENABLE_FEATURE_MOUNT_FLAGS cfg
      \<and> resolve cfg cmdopts AND (MS_SHARED OR MS_PRIVATE OR MS_SLAVE OR MS_UNBINDABLE) \<noteq> 0)"

definition table_name :: "config \<Rightarrow> string \<Rightarrow> string" where
  "table_name cfg cmdopts =
     (if resolve cfg cmdopts AND MS_REMOUNT \<noteq> 0 then bb_path_mtab_file else ''/etc/fstab'')"

definition table_records :: "env \<Rightarrow> string \<Rightarrow> world \<Rightarrow> mntent list option" where
  "table_records E cmdopts w =
     (if resolve (build E) cmdopts AND MS_REMOUNT \<noteq> 0 then mtab w else fstab E)"

text \<open>The conditions of the CIFS and the NFS branch on the source of a request whose
  type is unset, and the unrecognised options \<open>singlemount\<close> hands to the kernel.\<close>

definition unc_source :: "config \<Rightarrow> string \<Rightarrow> bool" where
  "unc_source cfg s =
     (ENABLE_FEATURE_MOUNT_CIFS cfg \<and> c_at s 0 = c_at s 1
      \<and> (c_at s 0 = CHR ''/'' \<or> c_at s 0 = BACKSLASH))"

definition remote_source :: "config \<Rightarrow> string \<Rightarrow> bool" where
  "remote_source cfg s = (ENABLE_FEATURE_MOUNT_NFS cfg \<and> CHR '':'' \<in> set s)"

definition filter_options :: "config \<Rightarrow> string \<Rightarrow> string option" where
  "filter_options cfg s = collect None (unmatched cfg (split_on CHR '','' s))"

section \<open>A concrete system for examples\<close>

text \<open>A system in which every \<open>mount(2)\<close> succeeds, no file exists (\<open>ENOENT\<close> is 2),
  no host is known and the helpers fail; and a fresh process state. The examples
  change single fields of these.\<close>

definition quiet_env :: env where
  "quiet_env =
     \<lparr> build = all_features,
       sys_mount = (\<lambda>h c. None),
       sys_lstat = (\<lambda>h p. Inl 2),
       sys_fopen = (\<lambda>h p. Inl 2),
       gethostbyname = (\<lambda>n. None),
       nfsmount = (\<lambda>h mp fl fo. (- 1, 2)),
       set_loop = (\<lambda>h f. (- 1, [], 2)),
       del_loop = (\<lambda>h d. 2),
       bb_simplify_path = (\<lambda>p. p),
       fstab = None \<rparr>"

definition start_world :: world where
  "start_world =
     \<lparr> errno = 0, mounts = [], fslist = [], useMtab = True, fakeIt = False,
       mtab = Some [], messages = [], printed = [], live = {}, brk = 0 \<rparr>"

text \<open>A request whose options are in block 0 from \<open>malloc\<close>, and a state in which that
  block is live.\<close>

definition example_request :: mntent where
  "example_request =
     \<lparr>mnt_fsname = ''/dev/sda1'', mnt_dir = ''/mnt/'', mnt_type = Some ''ext2'',
      mnt_opts = ''rw'', fsname_at = Foreign, opts_at = Heap 0\<rparr>"

definition request_world :: world where
  "request_world = start_world\<lparr>live := {0}, brk := 1\<rparr>"

text \<open>Records of a mount table as \<open>getmntent_r\<close> delivers them, with their strings in its
  buffer; a system whose \<open>mount(2)\<close> always fails with \<open>EPERM\<close>, and one whose \<open>mount(2)\<close>
  always succeeds.\<close>

definition ext2_record :: mntent where
  "ext2_record = \<lparr>mnt_fsname = ''/dev/sda1'', mnt_dir = ''/mnt'', mnt_type = Some ''ext2'',
                   mnt_opts = ''defaults'', fsname_at = Foreign, opts_at = Foreign\<rparr>"

definition proc_record :: mntent where
  "proc_record = \<lparr>mnt_fsname = ''proc'', mnt_dir = ''/proc'', mnt_type = Some ''proc'',
                   mnt_opts = ''defaults'', fsname_at = Foreign, opts_at = Foreign\<rparr>"

definition rec_A :: mntent where
  "rec_A = \<lparr>mnt_fsname = ''/dev/A'', mnt_dir = ''/mnt'', mnt_type = Some ''ext2'',
             mnt_opts = ''defaults'', fsname_at = Foreign, opts_at = Foreign\<rparr>"

definition rec_B :: mntent where
  "rec_B = \<lparr>mnt_fsname = ''/dev/B'', mnt_dir = ''/mnt'', mnt_type = Some ''ext2'',
             mnt_opts = ''defaults'', fsname_at = Foreign, opts_at = Foreign\<rparr>"

definition rec_dir :: mntent where
  "rec_dir = \<lparr>mnt_fsname = ''/srv/data'', mnt_dir = ''/mnt'', mnt_type = None,
             mnt_opts = ''defaults'', fsname_at = Foreign, opts_at = Foreign\<rparr>"

definition fatal_env :: env where
  "fatal_env = quiet_env\<lparr>sys_mount := (\<lambda>h c. Some EPERM),
                         fstab := Some [ext2_record, proc_record]\<rparr>"

definition table_env :: env where
  "table_env = quiet_env\<lparr>fstab := Some [ext2_record, proc_record]\<rparr>"

definition quiet_world :: world where
  "quiet_world = start_world\<lparr>useMtab := False\<rparr>"

text \<open>The text of the example in the specification:
  \<open>"nodev proc\\n# comment\\next4\\n\\n"\<close>.\<close>

definition example_filesystems :: string where
  "example_filesystems =
     ''nodev proc'' @ [CHR 0x0A] @ ''# comment'' @ [CHR 0x0A] @ ''ext4'' @ [CHR 0x0A, CHR 0x0A]"

section \<open>Properties of the option resolver\<close>

subsection \<open>Strings and characters\<close>

lemma split_on_last: "c \<notin> set a \<Longrightarrow> split_on c a = [a]"
  by (induction a) auto

lemma split_on_first: "c \<notin> set a \<Longrightarrow> split_on c (a @ c # b) = a # split_on c b"
  by (induction a) auto

lemma split_on_NUL: "NUL \<notin> set s \<Longrightarrow> t \<in> set (split_on c s) \<Longrightarrow> NUL \<notin> set t"
  by (induction s arbitrary: t) (auto split: if_splits list.splits)

lemma strchr_none: "c \<notin> set s \<Longrightarrow> c \<noteq> NUL \<Longrightarrow> strchr (s @ NUL # post) c = None"
  by (induction s) auto

lemma strchr_some:
  "c \<notin> set a \<Longrightarrow> NUL \<notin> set a \<Longrightarrow> strchr (a @ c # post) c = Some (length a)"
  by (induction a) auto

lemma takeWhile_NUL:
  "NUL \<notin> set s \<Longrightarrow> takeWhile (\<lambda>c. c \<noteq> NUL) (s @ NUL # post) = s"
  by (induction s) auto

lemma c_string_at: "NUL \<notin> set s \<Longrightarrow> c_string (pre @ s @ NUL # post) (length pre) = s"
  by (simp add: c_string_def takeWhile_NUL)

lemma c_string_0 [simp]: "NUL \<notin> set s \<Longrightarrow> c_string (s @ NUL # post) 0 = s"
  using c_string_at[of s "[]" post] by simp

lemma char_of_lit: "char_of (n::nat) = c \<longleftrightarrow> n mod 256 = of_char c"
  by (metis of_char_of char_of_char)

lemma lit_char_of: "c = char_of (n::nat) \<longleftrightarrow> n mod 256 = of_char c"
  using char_of_lit[of n c] by auto

lemmas tolower_eval = tolower_def char_of_lit lit_char_of

lemma tolower_NUL: "tolower c = NUL \<longleftrightarrow> c = NUL"
  by (auto simp: tolower_def char_of_lit NUL_def)


lemma of_char_0: "(of_char c :: nat) = 0 \<longleftrightarrow> c = NUL"
proof -
  have "(of_char c :: nat) = of_char NUL \<longleftrightarrow> c = NUL" by (rule of_char_eq_iff)
  then show ?thesis by (simp add: NUL_def)
qed

lemma strcasecmp_eq:
  "NUL \<notin> set a \<Longrightarrow> NUL \<notin> set b \<Longrightarrow>
   strcasecmp a b = 0 \<longleftrightarrow> map tolower a = map tolower b"
  by (induction a b rule: strcasecmp.induct) (auto simp: of_char_0 tolower_NUL)


subsection \<open>The table\<close>

lemma find_option_find:
  "list_all (\<lambda>e. NUL \<notin> set (fst e)) tbl \<Longrightarrow> NUL \<notin> set tok \<Longrightarrow>
   find_option tbl tok = map_option snd (find (\<lambda>e. map tolower (fst e) = map tolower tok) tbl)"
  by (induction tbl tok rule: find_option.induct) (auto simp: strcasecmp_eq)


lemma mount_options_names: "list_all (\<lambda>e. NUL \<notin> set (fst e)) (mount_options cfg)"
  by (simp add: mount_options_def NUL_def)



lemma find_option_mask:
  "NUL \<notin> set tok \<Longrightarrow> find_option (mount_options cfg) tok = option_mask cfg tok"
  unfolding option_mask_def by (rule find_option_find[OF mount_options_names])


lemma apply_flag_effect: "apply_flag acc m = flag_effect acc m"
  by (auto simp: apply_flag_def flag_effect_def word_sless_alt)

lemma append_unrecognized_eq:
  "append_unrecognized c t =
     (case c of None \<Rightarrow> Some t
      | Some old \<Rightarrow> if old = [] then Some t else Some (old @ '','' @ t))"
  by (simp add: append_unrecognized_def split: option.splits)

subsection \<open>The loop over the memory is a fold over the tokens\<close>

lemma token_step_apply:
  "token_step cfg (f, u) tok =
     (case find_option (mount_options cfg) tok of
        Some fl \<Rightarrow> (apply_flag f fl, u)
      | None \<Rightarrow> (f, map_option (\<lambda>u. append_unrecognized u tok) u))"
  by (simp add: token_step_def split: option.splits)

lemma loop_tokens:
  "NUL \<notin> set s \<Longrightarrow>
   parse_mount_options_loop cfg (pre @ s @ NUL # post) (length pre) flags u =
     (fst (foldl (token_step cfg) (flags, u) (split_on CHR '','' s)),
      snd (foldl (token_step cfg) (flags, u) (split_on CHR '','' s)),
      pre @ s @ NUL # post)"
proof (induction "length s" arbitrary: s pre flags u rule: less_induct)
  case less
  show ?case
  proof (cases "CHR '','' \<in> set s")
    case False
    have ne: "CHR '','' \<noteq> NUL" by (simp add: NUL_def)
    have sc: "strchr (drop (length pre) (pre @ s @ NUL # post)) CHR '','' = None"
      using strchr_none[OF False ne] by simp
    show ?thesis
      apply (subst parse_mount_options_loop.simps)
      apply (simp only: sc option.case Let_def c_string_at[OF less.prems]
          split_on_last[OF False])
      apply (cases u; cases "find_option (mount_options cfg) s"; simp add: token_step_def)
      done
  next
    case True
    then obtain a b where s: "s = a @ CHR '','' # b" and a: "CHR '','' \<notin> set a"
      by (meson split_list_first)
    from less.prems s have na: "NUL \<notin> set a" and nb: "NUL \<notin> set b" by auto
    have sc: "strchr (drop (length pre) (pre @ s @ NUL # post)) CHR '','' = Some (length a)"
      using strchr_some[OF a na] s by simp
    have m1: "(pre @ s @ NUL # post)[length pre + length a := NUL]
                = pre @ a @ NUL # (b @ NUL # post)"
      using s by (simp add: list_update_append)
    have m2: "(pre @ a @ NUL # (b @ NUL # post))[length pre + length a := CHR '','']
                = (pre @ a @ [CHR '','']) @ b @ NUL # post"
      by (simp add: list_update_append)
    have len: "length pre + length a + 1 = length (pre @ a @ [CHR '',''])" by simp
    have lb: "length b < length s" using s by simp
    have ih: "parse_mount_options_loop cfg ((pre @ a @ [CHR '','']) @ b @ NUL # post)
                (length (pre @ a @ [CHR '',''])) f' u' =
       (fst (foldl (token_step cfg) (f', u') (split_on CHR '','' b)),
        snd (foldl (token_step cfg) (f', u') (split_on CHR '','' b)),
        (pre @ a @ [CHR '','']) @ b @ NUL # post)" for f' u'
      by (rule less.hyps[OF lb nb])
    have mem: "(pre @ a @ [CHR '','']) @ b @ NUL # post = pre @ s @ NUL # post"
      using s by simp
    show ?thesis
      apply (subst parse_mount_options_loop.simps)
      apply (simp only: sc option.case Let_def m1 m2 c_string_at[OF na] len ih)
      apply (simp only: mem)
      apply (simp only: s split_on_first[OF a] foldl.simps)
      apply (cases u; cases "find_option (mount_options cfg) a"; simp add: token_step_def)
      done
  qed
qed

lemma foldl_token_step:
  "(\<And>t. t \<in> set ts \<Longrightarrow> NUL \<notin> set t) \<Longrightarrow>
   foldl (token_step cfg) (flags, u) ts =
     (resolve_flags cfg flags ts, map_option (\<lambda>c. collect c (unmatched cfg ts)) u)"
proof (induction ts arbitrary: flags u)
  case Nil
  show ?case by (simp add: unmatched_def option.map_ident)
next
  case (Cons t ts)
  have t: "find_option (mount_options cfg) t = option_mask cfg t"
    using Cons.prems by (simp add: find_option_mask)
  have ih: "foldl (token_step cfg) (f', u') ts =
     (resolve_flags cfg f' ts, map_option (\<lambda>c. collect c (unmatched cfg ts)) u')" for f' u'
    using Cons.IH Cons.prems by simp
  show ?case
    by (cases "option_mask cfg t"; cases u)
       (simp_all add: token_step_apply t ih apply_flag_effect unmatched_def
          append_unrecognized_eq)
qed

lemma parse_mount_options_eq:
  assumes "NUL \<notin> set s"
  shows "parse_mount_options cfg (pre @ s @ NUL # post) (length pre) u =
     (resolve_flags cfg MS_SILENT (split_on CHR '','' s),
      map_option (\<lambda>c. collect c (unmatched cfg (split_on CHR '','' s))) u,
      pre @ s @ NUL # post)"
  unfolding parse_mount_options_def loop_tokens[OF assms]
  using foldl_token_step[of "split_on CHR '','' s" cfg MS_SILENT u] split_on_NUL[OF assms]
  by simp

lemma parse_mount_options_in_memory:
  assumes "NUL \<notin> set s"
  shows "parse_mount_options cfg (in_memory s) 0 u =
     (resolve_flags cfg MS_SILENT (split_on CHR '','' s),
      map_option (\<lambda>c. collect c (unmatched cfg (split_on CHR '','' s))) u,
      in_memory s)"
  unfolding in_memory_def
  using parse_mount_options_eq[OF assms, of cfg "[]" "[]" u] by simp

lemma c_string_in_memory: "NUL \<notin> set s \<Longrightarrow> c_string (in_memory s) 0 = s"
  by (simp add: in_memory_def)

subsection \<open>Tokens are applied left to right\<close>

lemma ro_rw_flags:
  "resolve_flags cfg MS_SILENT (split_on CHR '','' ''ro,rw'') = MS_SILENT AND NOT MS_RDONLY"
  by (simp add: option_mask_def mount_options_def tolower_eval flag_effect_def MS_defs)

text \<open>
  C1 (amended). For every option string \<open>s\<close> (a C string: no NUL inside) and every
  collector \<open>u\<close>, \<open>parse_mount_options\<close> returns the flags obtained by splitting \<open>s\<close> at
  its commas and applying the tokens strictly left to right to an accumulator that
  starts as \<open>MS_SILENT\<close>: a token matching a table entry up to case ORs a non-negative
  mask into the accumulator and ANDs a negative mask with it; a token matching no entry
  leaves the flags alone. With a collector, the unmatched tokens are appended to it
  verbatim and in input order, each preceded by a comma exactly when the string
  collected so far is not empty; without a collector they are dropped. Resolving
  \<open>"ro,rw"\<close> gives the seed with the read-only bit cleared.
\<close>

theorem parse_mount_options_tokens:
  assumes "NUL \<notin> set s"
  shows "fst (parse_mount_options cfg (in_memory s) 0 u)
           = resolve_flags cfg MS_SILENT (split_on CHR '','' s)
       \<and> fst (snd (parse_mount_options cfg (in_memory s) 0 u))
           = map_option (\<lambda>c. collect c (unmatched cfg (split_on CHR '','' s))) u
       \<and> fst (parse_mount_options cfg (in_memory ''ro,rw'') 0 u) = MS_SILENT AND NOT MS_RDONLY"
proof -
  have "NUL \<notin> set ''ro,rw''" by (simp add: NUL_def)
  from parse_mount_options_in_memory[OF this, of cfg u] parse_mount_options_in_memory[OF assms, of cfg u]
  show ?thesis by (simp only: fst_conv snd_conv ro_rw_flags simp_thms)
qed

theorem parse_mount_options_tokens_witness:
  "NUL \<notin> set ''bogus,RO,x''
   \<and> fst (parse_mount_options all_features (in_memory ''bogus,RO,x'') 0 (Some None))
       = MS_SILENT OR MS_RDONLY
   \<and> fst (snd (parse_mount_options all_features (in_memory ''bogus,RO,x'') 0 (Some None)))
       = Some (Some ''bogus,x'')"
  using parse_mount_options_tokens[of "''bogus,RO,x''" all_features "Some None"]
  by (simp add: NUL_def unmatched_def option_mask_def mount_options_def all_features_def
      tolower_eval flag_effect_def MS_defs)

text \<open>
  C1 as stated reads the collector as the comma-separated list of the unmatched tokens.
  That fails when an empty token comes first: for \<open>",bogus"\<close> and an empty collector
  the tokens are \<open>""\<close> and \<open>"bogus"\<close>, whose comma-separated list is \<open>",bogus"\<close>, but
  the code leaves \<open>"bogus"\<close> in the collector (the empty token leaves the collector
  empty, so no comma is written before the next token).
\<close>

theorem parse_mount_options_leading_empty_token:
  "fst (snd (parse_mount_options all_features (in_memory '',bogus'') 0 (Some None)))
     = Some (Some ''bogus'')
   \<and> map_option (\<lambda>c. collect_joined c (unmatched all_features (split_on CHR '','' '',bogus'')))
        (Some None) = Some (Some '',bogus'')"
proof -
  have "NUL \<notin> set '',bogus''" by (simp add: NUL_def)
  from parse_mount_options_in_memory[OF this, of all_features "Some None"]
  show ?thesis
    by (simp add: collect_joined_def unmatched_def option_mask_def mount_options_def
        all_features_def tolower_eval)
qed

subsection \<open>The option string is left as it was\<close>

text \<open>
  C10. \<open>parse_mount_options\<close> leaves the memory holding its option string unchanged:
  for every memory with a terminator at or behind the pointer, the memory after the
  call equals the memory before it (each comma overwritten with NUL is written back
  before the pointer moves on).
\<close>

theorem parse_mount_options_restores_memory:
  assumes "NUL \<in> set (drop options mem)"
  shows "snd (snd (parse_mount_options cfg mem options unrecognized)) = mem"
proof -
  define s where "s = takeWhile (\<lambda>c. c \<noteq> NUL) (drop options mem)"
  define post where "post = tl (dropWhile (\<lambda>c. c \<noteq> NUL) (drop options mem))"
  have ne: "dropWhile (\<lambda>c. c \<noteq> NUL) (drop options mem) \<noteq> []"
    using assms by (simp add: dropWhile_eq_Nil_conv) 
  then have hd: "hd (dropWhile (\<lambda>c. c \<noteq> NUL) (drop options mem)) = NUL"
    using hd_dropWhile[of "\<lambda>c. c \<noteq> NUL" "drop options mem"] by simp
  have "drop options mem = s @ dropWhile (\<lambda>c. c \<noteq> NUL) (drop options mem)"
    unfolding s_def by simp
  also have "dropWhile (\<lambda>c. c \<noteq> NUL) (drop options mem) = NUL # post"
    unfolding post_def using ne hd by (metis list.collapse)
  finally have d: "drop options mem = s @ NUL # post" .
  have lt: "options < length mem" using assms by (cases "options < length mem") auto
  have mem: "mem = take options mem @ s @ NUL # post"
    using d append_take_drop_id[of options mem] by simp
  have len: "length (take options mem) = options" using lt by simp
  have s: "NUL \<notin> set s" unfolding s_def by (auto dest: set_takeWhileD)
  from parse_mount_options_eq[OF s, of cfg "take options mem" post unrecognized]
  show ?thesis unfolding len using mem by simp
qed

theorem parse_mount_options_restores_memory_witness:
  "NUL \<in> set (drop 3 (in_memory ''rw,ro,noexec''))
   \<and> snd (snd (parse_mount_options all_features (in_memory ''rw,ro,noexec'') 3 (Some None)))
       = in_memory ''rw,ro,noexec''"
  using parse_mount_options_restores_memory[of 3 "in_memory ''rw,ro,noexec''" all_features
      "Some None"]
  by (simp add: in_memory_def)

subsection \<open>Order of two options\<close>




lemma resolve_tokens:
  "NUL \<notin> set s \<Longrightarrow> resolve cfg s = resolve_flags cfg MS_SILENT (split_on CHR '','' s)"
  unfolding resolve_def by (simp add: parse_mount_options_in_memory)









section \<open>Properties of the filesystem list\<close>

lemma c_at_0: "c_at s 0 = (case s of [] \<Rightarrow> NUL | c # cs \<Rightarrow> c)"
  by (cases s) (simp_all add: c_at_def)

lemma c_at_comment:
  "(c_at fs 0 = CHR ''#'' \<or> c_at fs 0 = CHR ''*'')
     = (case fs of [] \<Rightarrow> False | c # cs \<Rightarrow> c = CHR ''#'' \<or> c = CHR ''*'')"
  by (cases fs) (simp_all add: c_at_def NUL_def)

lemma c_at_blank: "NUL \<notin> set fs \<Longrightarrow> (c_at fs 0 = NUL) = (fs = [])"
  by (cases fs) (auto simp: c_at_def)

lemma block_backed_lines_kept:
  "(\<And>l. l \<in> set ls \<Longrightarrow> NUL \<notin> set l) \<Longrightarrow>
   block_backed_lines list ls = list @ kept_filesystems ls"
proof (induction ls arbitrary: list)
  case Nil
  show ?case by (simp add: kept_filesystems_def)
next
  case (Cons buf bufs)
  have ih: "block_backed_lines l' bufs = l' @ kept_filesystems bufs" for l'
    using Cons by simp
  have n: "NUL \<notin> set buf" using Cons.prems by simp
  have sp: "\<not> isspace NUL" by (simp add: isspace_def NUL_def)
  have nd: "(take 5 buf = ''nodev'' \<and> isspace (c_at buf 5)) = nodev_line buf"
    using sp by (auto simp: nodev_line_def c_at_def)
  have nf: "NUL \<notin> set (dropWhile isspace buf)" using n by (auto dest: set_dropWhileD)
  have cm: "(c_at (dropWhile isspace buf) 0 = CHR ''#'' \<or> c_at (dropWhile isspace buf) 0 = CHR ''*'')
              = comment_line buf"
    by (simp only: comment_line_def c_at_comment)
  have bl: "(c_at (dropWhile isspace buf) 0 = NUL) = blank_line buf"
    by (simp only: blank_line_def c_at_blank[OF nf])
  show ?case
    by (simp add: ih nd cm bl Let_def kept_filesystems_def)
qed

lemma chomped_lines_NUL: "l \<in> set (chomped_lines text) \<Longrightarrow> NUL \<notin> set l"
  by (auto simp: chomped_lines_def Let_def dest: set_takeWhileD split: if_splits)

lemma block_backed_files_eq:
  "fst (block_backed_files E paths list w)
     = list @ concat (map (file_filesystems E (mounts w)) paths)"
proof (induction paths arbitrary: list w)
  case Nil
  show ?case by simp
next
  case (Cons path paths)
  show ?case
    by (cases "sys_fopen E (mounts w) path")
       (simp_all add: Cons.IH file_filesystems_def block_backed_lines_kept chomped_lines_NUL)
qed

lemma example_lines:
  "chomped_lines example_filesystems = [''nodev proc'', ''# comment'', ''ext4'', '''']"
  by (simp add: chomped_lines_def example_filesystems_def NUL_def)

lemma example_kept: "kept_filesystems (chomped_lines example_filesystems) = [''ext4'']"
  unfolding example_lines
  by (simp add: kept_filesystems_def nodev_line_def comment_line_def blank_line_def isspace_def)

text \<open>
  C7. \<open>get_block_backed_filesystems\<close> returns, for \<open>/etc/filesystems\<close> and then
  \<open>/proc/filesystems\<close>, the lines of each file that can be opened, in file order and
  without their leading whitespace, leaving out every line that starts with \<open>nodev\<close>
  and a whitespace character, every line whose first non-whitespace character is \<open>#\<close>
  or \<open>*\<close>, and every blank line; the two lists are appended, so a name in both files is
  listed twice. When one file holds \<open>"nodev proc\\n# comment\\next4\\n\\n"\<close> and the other
  cannot be opened, the result is \<open>["ext4"]\<close>.
\<close>

theorem get_block_backed_filesystems_list:
  "fst (get_block_backed_filesystems E w)
     = file_filesystems E (mounts w) ''/etc/filesystems''
       @ file_filesystems E (mounts w) ''/proc/filesystems''
   \<and> (sys_fopen E (mounts w) ''/etc/filesystems'' = Inr example_filesystems
        \<and> sys_fopen E (mounts w) ''/proc/filesystems'' = Inl e
      \<longrightarrow> fst (get_block_backed_filesystems E w) = [''ext4''])"
proof -
  have g: "fst (get_block_backed_filesystems E w)
     = file_filesystems E (mounts w) ''/etc/filesystems''
       @ file_filesystems E (mounts w) ''/proc/filesystems''"
    unfolding get_block_backed_filesystems_def block_backed_files_eq by simp
  show ?thesis unfolding g by (simp add: file_filesystems_def example_kept)
qed

theorem get_block_backed_filesystems_list_witness:
  "sys_fopen (quiet_env\<lparr>sys_fopen := (\<lambda>h p. if p = ''/etc/filesystems''
                                             then Inr example_filesystems else Inl 2)\<rparr>)
      (mounts start_world) ''/etc/filesystems'' = Inr example_filesystems
   \<and> sys_fopen (quiet_env\<lparr>sys_fopen := (\<lambda>h p. if p = ''/etc/filesystems''
                                             then Inr example_filesystems else Inl 2)\<rparr>)
      (mounts start_world) ''/proc/filesystems'' = Inl 2
   \<and> fst (get_block_backed_filesystems
            (quiet_env\<lparr>sys_fopen := (\<lambda>h p. if p = ''/etc/filesystems''
                                             then Inr example_filesystems else Inl 2)\<rparr>)
            start_world) = [''ext4'']"
proof -
  let ?E = "quiet_env\<lparr>sys_fopen := (\<lambda>h p. if p = ''/etc/filesystems''
                                        then Inr example_filesystems else Inl 2)\<rparr>"
  have a: "sys_fopen ?E (mounts start_world) ''/etc/filesystems'' = Inr example_filesystems"
    by simp
  have b: "sys_fopen ?E (mounts start_world) ''/proc/filesystems'' = Inl 2"
    by simp
  from get_block_backed_filesystems_list[of ?E start_world 2] a b show ?thesis
    by blast
qed

section \<open>Properties of the mount executor\<close>

lemma rdonly_nz: "MS_RDONLY \<noteq> 0"
  by (simp add: MS_RDONLY_def)

lemma rdonly_set: "(vfsflags OR MS_RDONLY) AND MS_RDONLY \<noteq> 0"
  by (simp add: rdonly_nz word_ao_absorbs)

lemma mount_retry_unfold:
  "mount_retry E mp vfsflags filteropts w =
     (case mount E (attempt mp vfsflags filteropts) w of
        (rc, w1) \<Rightarrow>
          if rc = 0 \<or> vfsflags AND MS_RDONLY \<noteq> 0 \<or> (errno w1 \<noteq> EACCES \<and> errno w1 \<noteq> EROFS)
          then (rc, w1)
          else mount E (attempt mp (vfsflags OR MS_RDONLY) filteropts)
                 (bb_error_msg (mnt_fsname mp @ '' is write-protected, mounting read-only'') w1))"
proof -
  have stop: "mount_retry E mp (vfsflags OR MS_RDONLY) filteropts w' =
      mount E (attempt mp (vfsflags OR MS_RDONLY) filteropts) w'" for w'
    by (subst mount_retry.simps) (simp add: rdonly_nz word_ao_absorbs attempt_def split: prod.splits)
  show ?thesis
    by (subst mount_retry.simps) (simp add: stop attempt_def split: prod.splits)
qed

lemma mount_fail:
  "sys_mount E (mounts w) c = Some e \<Longrightarrow>
   mount E c w = (- 1, w\<lparr>errno := e, mounts := mounts w @ [c]\<rparr>)"
  by (simp add: mount_def)

lemma mount_ok:
  "sys_mount E (mounts w) c = None \<Longrightarrow> mount E c w = (0, w\<lparr>mounts := mounts w @ [c]\<rparr>)"
  by (simp add: mount_def)

lemma mounts_mount: "mounts (snd (mount E c w)) = mounts w @ [c]"
  by (simp add: mount_def split: option.splits)

lemma mounts_bb_error_msg [simp]: "mounts (bb_error_msg m w) = mounts w"
  by (simp add: bb_error_msg_def)

lemma errno_bb_error_msg [simp]: "errno (bb_error_msg m w) = errno w"
  by (simp add: bb_error_msg_def)

lemma EPERM_other: "EPERM \<noteq> EACCES" "EPERM \<noteq> EROFS"
  by (simp_all add: EPERM_def EACCES_def EROFS_def)

lemma mtab_mount [simp]: "mtab (snd (mount E c w)) = mtab w"
  by (simp add: mount_def split: option.splits)

lemma mtab_bb_error_msg [simp]: "mtab (bb_error_msg m w) = mtab w"
  by (simp add: bb_error_msg_def)

subsection \<open>Memory operations leave the system alone\<close>

lemma kept_refl [simp]: "kept w w"
  by (simp add: kept_def)

lemma kept_trans: "kept w w1 \<Longrightarrow> kept w1 w2 \<Longrightarrow> kept w w2"
  by (simp add: kept_def)

lemma kept_bb_error_msg [simp]: "kept w (bb_error_msg m w)"
  by (simp add: kept_def bb_error_msg_def)

lemma kept_xmalloc: "xmalloc w = (a, w1) \<Longrightarrow> kept w w1"
  by (auto simp: xmalloc_def kept_def)

lemma kept_free: "free p w = Some w1 \<Longrightarrow> kept w w1"
  by (auto simp: free_def kept_def split: origin.splits if_splits)

lemma kept_append_mount_options:
  "append_mount_options cfg oldopts newopts w = (r, w1) \<Longrightarrow> kept w w1"
  by (auto simp: append_mount_options_def xmalloc_def free_def kept_def
      split: prod.splits option.splits if_splits origin.splits)

lemma kept_add_vfs_string_flags:
  "add_vfs_string_flags cfg table mp w = (r, w1) \<Longrightarrow> kept w w1"
proof (induction table arbitrary: mp w)
  case Nil
  then show ?case by simp
next
  case (Cons e table)
  obtain name fl where e: "e = (name, fl)" by (cases e)
  show ?case
  proof (cases "fl \<noteq> MS_REMOUNT \<and> 0 <s fl")
    case False
    then show ?thesis using Cons e by (auto split: if_splits)
  next
    case True
    obtain x w2 where a: "append_mount_options cfg (mnt_opts mp, opts_at mp) name w = (x, w2)"
      by (cases "append_mount_options cfg (mnt_opts mp, opts_at mp) name w")
    have k: "kept w w2" by (rule kept_append_mount_options[OF a])
    show ?thesis
    proof (cases x)
      case None
      then show ?thesis using Cons.prems e True a k by simp
    next
      case (Some p)
      obtain s at where p: "p = (s, at)" by (cases p)
      have "add_vfs_string_flags cfg table (mp\<lparr>mnt_opts := s, opts_at := at\<rparr>) w2 = (r, w1)"
        using Cons.prems e True a Some p by simp
      from kept_trans[OF k Cons.IH[OF this]] show ?thesis .
    qed
  qed
qed

lemma kept_update_mtab: "update_mtab E mp w = (r, w1) \<Longrightarrow> kept w w1"
proof -
  assume u: "update_mtab E mp w = (r, w1)"
  let ?w = "case mtab w of None \<Rightarrow> bb_error_msg (''no '' @ bb_path_mtab_file) w | Some t \<Rightarrow> w"
  have k: "kept w ?w" by (simp split: option.splits)
  obtain x w2 where a: "add_vfs_string_flags (build E) (mount_options (build E)) mp ?w = (x, w2)"
    by (cases "add_vfs_string_flags (build E) (mount_options (build E)) mp ?w")
  have "w1 = w2" using u a by (cases x) (simp_all add: update_mtab_def Let_def)
  with kept_trans[OF k kept_add_vfs_string_flags[OF a]] show ?thesis by simp
qed

lemma mounts_update_mtab [simp]: "mounts (snd (update_mtab E mp w)) = mounts w"
  using kept_update_mtab[of E mp w] by (cases "update_mtab E mp w") (simp add: kept_def)

lemma mtab_update_mtab [simp]: "mtab (snd (update_mtab E mp w)) = mtab w"
  using kept_update_mtab[of E mp w] by (cases "update_mtab E mp w") (simp add: kept_def)

lemma mount_retry_mtab: "mtab (snd (mount_retry E mp vfsflags filteropts w)) = mtab w"
proof -
  obtain rc w1 where m: "mount E (attempt mp vfsflags filteropts) w = (rc, w1)"
    by (cases "mount E (attempt mp vfsflags filteropts) w")
  have "mtab w1 = mtab w" using mtab_mount[of E "attempt mp vfsflags filteropts" w] m by simp
  then show ?thesis by (simp add: mount_retry_unfold m)
qed

lemma mount_it_now_mtab: "mtab (snd (snd (mount_it_now E mp vfsflags filteropts w))) = mtab w"
proof -
  obtain rc w1 where r: "mount_retry E mp vfsflags filteropts w = (rc, w1)"
    by (cases "mount_retry E mp vfsflags filteropts w")
  have w1: "mtab w1 = mtab w" using mount_retry_mtab[of E mp vfsflags filteropts w] r by simp
  obtain x w2 where u: "update_mtab E mp w1 = (x, w2)"
    by (cases "update_mtab E mp w1")
  have w2: "mtab w2 = mtab w" using mtab_update_mtab[of E mp w1] u w1 by simp
  show ?thesis by (cases x) (simp_all add: mount_it_now_def r u w1 w2)
qed

subsection \<open>Read-only fallback\<close>

text \<open>
  C2. When the first \<open>mount(2)\<close> call of \<open>mount_it_now\<close> fails with \<open>EACCES\<close> or
  \<open>EROFS\<close> and \<open>MS_RDONLY\<close> was not among its flags, \<open>mount_it_now\<close> makes exactly one
  more call, with \<open>MS_RDONLY\<close> added, and no third one whatever the second does. When
  the first call fails with \<open>MS_RDONLY\<close> already set, or with any other \<open>errno\<close>, there
  is no second call: the failure is returned, or escalated when it is \<open>EPERM\<close>.
\<close>

theorem mount_it_now_retry:
  assumes "\<not> (ENABLE_FEATURE_MTAB_SUPPORT (build E) \<and> fakeIt w)"
    and "sys_mount E (mounts w) (attempt mp vfsflags filteropts) = Some e"
  shows "(vfsflags AND MS_RDONLY = 0 \<and> (e = EACCES \<or> e = EROFS) \<longrightarrow>
            mounts (snd (snd (mount_it_now E mp vfsflags filteropts w)))
              = mounts w @ [attempt mp vfsflags filteropts,
                            attempt mp (vfsflags OR MS_RDONLY) filteropts])
       \<and> (vfsflags AND MS_RDONLY \<noteq> 0 \<or> (e \<noteq> EACCES \<and> e \<noteq> EROFS) \<longrightarrow>
            mounts (snd (snd (mount_it_now E mp vfsflags filteropts w)))
              = mounts w @ [attempt mp vfsflags filteropts]
            \<and> fst (mount_it_now E mp vfsflags filteropts w)
              = (if e = EPERM then Died bb_msg_perm_denied_are_you_root else Returned (- 1)))"
proof -
  let ?w1 = "bb_error_msg (mnt_fsname mp @ '' is write-protected, mounting read-only'')
               (w\<lparr>errno := e, mounts := mounts w @ [attempt mp vfsflags filteropts]\<rparr>)"
  have one: "mounts (snd (snd (mount_it_now E mp vfsflags filteropts w)))
              = mounts w @ [attempt mp vfsflags filteropts,
                            attempt mp (vfsflags OR MS_RDONLY) filteropts]"
    if a: "vfsflags AND MS_RDONLY = 0 \<and> (e = EACCES \<or> e = EROFS)"
  proof -
    obtain rc2 w2 where
      m2: "mount E (attempt mp (vfsflags OR MS_RDONLY) filteropts) ?w1 = (rc2, w2)"
      by (cases "mount E (attempt mp (vfsflags OR MS_RDONLY) filteropts) ?w1")
    have r: "mount_retry E mp vfsflags filteropts w = (rc2, w2)"
      using a m2 by (auto simp: mount_retry_unfold mount_fail[OF assms(2)])
    have m: "mounts w2 = mounts w @ [attempt mp vfsflags filteropts,
                                     attempt mp (vfsflags OR MS_RDONLY) filteropts]"
      using mounts_mount[of E "attempt mp (vfsflags OR MS_RDONLY) filteropts" ?w1] m2 by simp
    obtain x w3 where u: "update_mtab E mp w2 = (x, w3)"
      by (cases "update_mtab E mp w2")
    have m3: "mounts w3 = mounts w2" using mounts_update_mtab[of E mp w2] u by simp
    show ?thesis
      using assms(1) m m3 by (cases x) (simp_all add: mount_it_now_def r u)
  qed
  have two: "mounts (snd (snd (mount_it_now E mp vfsflags filteropts w)))
          = mounts w @ [attempt mp vfsflags filteropts]
        \<and> fst (mount_it_now E mp vfsflags filteropts w)
          = (if e = EPERM then Died bb_msg_perm_denied_are_you_root else Returned (- 1))"
    if b: "vfsflags AND MS_RDONLY \<noteq> 0 \<or> (e \<noteq> EACCES \<and> e \<noteq> EROFS)"
  proof -
    have r: "mount_retry E mp vfsflags filteropts w
               = (- 1, w\<lparr>errno := e, mounts := mounts w @ [attempt mp vfsflags filteropts]\<rparr>)"
      using b by (auto simp: mount_retry_unfold mount_fail[OF assms(2)])
    show ?thesis
      using assms(1) unfolding mount_it_now_def r by auto
  qed
  from one two show ?thesis by blast
qed

theorem mount_it_now_retry_witness:
  "sys_mount (quiet_env\<lparr>sys_mount := (\<lambda>h c. if mc_flags c AND MS_RDONLY = 0
                                             then Some EACCES else None)\<rparr>)
      (mounts request_world) (attempt example_request MS_SILENT None) = Some EACCES
   \<and> MS_SILENT AND MS_RDONLY = 0
   \<and> mounts (snd (snd (mount_it_now
         (quiet_env\<lparr>sys_mount := (\<lambda>h c. if mc_flags c AND MS_RDONLY = 0
                                             then Some EACCES else None)\<rparr>)
         example_request MS_SILENT None request_world)))
       = [attempt example_request MS_SILENT None,
          attempt example_request (MS_SILENT OR MS_RDONLY) None]
   \<and> sys_mount (quiet_env\<lparr>sys_mount := (\<lambda>h c. Some EROFS)\<rparr>)
      (mounts request_world) (attempt example_request (MS_SILENT OR MS_RDONLY) None) = Some EROFS
   \<and> (MS_SILENT OR MS_RDONLY) AND MS_RDONLY \<noteq> 0
   \<and> mounts (snd (snd (mount_it_now (quiet_env\<lparr>sys_mount := (\<lambda>h c. Some EROFS)\<rparr>)
         example_request (MS_SILENT OR MS_RDONLY) None request_world)))
       = [attempt example_request (MS_SILENT OR MS_RDONLY) None]
   \<and> fst (mount_it_now (quiet_env\<lparr>sys_mount := (\<lambda>h c. Some EROFS)\<rparr>)
         example_request (MS_SILENT OR MS_RDONLY) None request_world) = Returned (- 1)"
proof -
  let ?E1 = "quiet_env\<lparr>sys_mount := (\<lambda>h c. if mc_flags c AND MS_RDONLY = 0
                                         then Some EACCES else None)\<rparr>"
  let ?E2 = "quiet_env\<lparr>sys_mount := (\<lambda>h c. Some EROFS)\<rparr>"
  have f: "\<not> (ENABLE_FEATURE_MTAB_SUPPORT (build ?E1) \<and> fakeIt request_world)"
    "\<not> (ENABLE_FEATURE_MTAB_SUPPORT (build ?E2) \<and> fakeIt request_world)"
    by (simp_all add: request_world_def start_world_def)
  have z: "MS_SILENT AND MS_RDONLY = 0" by (simp add: MS_defs)
  have a: "sys_mount ?E1 (mounts request_world) (attempt example_request MS_SILENT None)
             = Some EACCES"
    by (simp add: attempt_def z)
  have b: "sys_mount ?E2 (mounts request_world)
             (attempt example_request (MS_SILENT OR MS_RDONLY) None) = Some EROFS"
    by simp
  have m: "mounts request_world = []" by (simp add: request_world_def start_world_def)
  have e: "EROFS \<noteq> EPERM" by (simp add: EROFS_def EPERM_def)
  from mount_it_now_retry[OF f(1) a] mount_it_now_retry[OF f(2) b] a b z rdonly_set[of MS_SILENT] m e
  show ?thesis by simp
qed

subsection \<open>Options in a live block\<close>

lemma append_mount_options_live:
  assumes "a \<in> live w" and "live w \<subseteq> {..<brk w}"
  shows "\<exists>s b w1. append_mount_options cfg (old, Heap a) new w = (Some (s, Heap b), w1)
           \<and> b \<in> live w1 \<and> live w1 \<subseteq> {..<brk w1}"
proof -
  from assms have ne: "a \<noteq> brk w" by auto
  show ?thesis
    using assms ne
    by (auto simp: append_mount_options_def xmalloc_def free_def)
qed

lemma add_vfs_string_flags_live:
  assumes "opts_at mp = Heap a" and "a \<in> live w" and "live w \<subseteq> {..<brk w}"
  shows "\<exists>mp1 w1. add_vfs_string_flags cfg table mp w = (Some mp1, w1)
           \<and> mnt_dir mp1 = mnt_dir mp \<and> mnt_type mp1 = mnt_type mp"
  using assms
proof (induction table arbitrary: mp w a)
  case Nil
  show ?case by simp
next
  case (Cons e table)
  obtain name fl where e: "e = (name, fl)" by (cases e)
  show ?case
  proof (cases "fl \<noteq> MS_REMOUNT \<and> 0 <s fl")
    case False
    then show ?thesis using Cons e by auto
  next
    case True
    from append_mount_options_live[OF Cons.prems(2,3), of cfg "mnt_opts mp" name]
    obtain s b w1 where
      a: "append_mount_options cfg (mnt_opts mp, Heap a) name w = (Some (s, Heap b), w1)"
      and b: "b \<in> live w1" and l: "live w1 \<subseteq> {..<brk w1}" by blast
    let ?mp = "mp\<lparr>mnt_opts := s, opts_at := Heap b\<rparr>"
    have "opts_at ?mp = Heap b" by simp
    from Cons.IH[OF this b l]
    obtain mp1 w2 where "add_vfs_string_flags cfg table ?mp w1 = (Some mp1, w2)"
      and "mnt_dir mp1 = mnt_dir ?mp" and "mnt_type mp1 = mnt_type ?mp" by blast
    then show ?thesis using True e a Cons.prems(1) by simp
  qed
qed

lemma update_mtab_live:
  assumes "opts_at mp = Heap a" and "a \<in> live w" and "live w \<subseteq> {..<brk w}"
  shows "\<exists>mp1 w1. update_mtab E mp w = (Some mp1, w1)
           \<and> mnt_dir mp1 = (if 1 < length (mnt_dir mp)
                                 \<and> mnt_dir mp ! (length (mnt_dir mp) - 1) = CHR ''/''
                              then take (length (mnt_dir mp) - 1) (mnt_dir mp) else mnt_dir mp)"
proof -
  let ?w = "case mtab w of None \<Rightarrow> bb_error_msg (''no '' @ bb_path_mtab_file) w | Some t \<Rightarrow> w"
  have l: "live ?w = live w" "brk ?w = brk w"
    by (simp_all add: bb_error_msg_def split: option.splits)
  from add_vfs_string_flags_live[OF assms(1), of ?w "build E" "mount_options (build E)"] assms(2,3) l
  obtain mp1 w1 where
    "add_vfs_string_flags (build E) (mount_options (build E)) mp ?w = (Some mp1, w1)"
    and "mnt_dir mp1 = mnt_dir mp" by auto
  then show ?thesis by (auto simp: update_mtab_def Let_def)
qed

subsection \<open>The legacy mount table\<close>

text \<open>
  C4 (the code departs from the claim). After a successful mount with mtab support
  compiled in, \<open>useMtab\<close> set and \<open>fakeIt\<close> clear, the request in memory carries the
  rebuilt options, the directory without its trailing slash and its type, but the
  legacy mount table holds what it held before: no record is appended.
\<close>

theorem mount_it_now_appends_no_record:
  "ENABLE_FEATURE_MTAB_SUPPORT (build quiet_env) \<and> useMtab request_world
   \<and> \<not> fakeIt request_world
   \<and> fst (mount_it_now quiet_env example_request MS_SILENT None request_world) = Returned 0
   \<and> mnt_dir (fst (snd (mount_it_now quiet_env example_request MS_SILENT None request_world)))
       = ''/mnt''
   \<and> mtab request_world = Some []
   \<and> mtab (snd (snd (mount_it_now quiet_env example_request MS_SILENT None request_world)))
       = Some []"
proof -
  let ?w1 = "request_world\<lparr>mounts := [attempt example_request MS_SILENT None]\<rparr>"
  have c: "ENABLE_FEATURE_MTAB_SUPPORT (build quiet_env)" "useMtab request_world"
    "\<not> fakeIt request_world" "mtab request_world = Some []"
    by (simp_all add: quiet_env_def all_features_def request_world_def start_world_def)
  have r: "mount_retry quiet_env example_request MS_SILENT None request_world = (0, ?w1)"
    by (simp add: mount_retry_unfold mount_def quiet_env_def request_world_def start_world_def)
  have o: "opts_at example_request = Heap 0" by (simp add: example_request_def)
  have l: "0 \<in> live ?w1" "live ?w1 \<subseteq> {..<brk ?w1}"
    by (simp_all add: request_world_def start_world_def)
  from update_mtab_live[OF o l, of quiet_env]
  obtain mp1 w2 where u: "update_mtab quiet_env example_request ?w1 = (Some mp1, w2)"
    and d: "mnt_dir mp1 = ''/mnt''"
    by (auto simp: example_request_def)
  have m: "mount_it_now quiet_env example_request MS_SILENT None request_world
             = (Returned 0, mp1, w2)"
    using c by (simp add: mount_it_now_def r u)
  from c m d mount_it_now_mtab[of quiet_env example_request MS_SILENT None request_world]
  show ?thesis by simp
qed

subsection \<open>A mount that fails with EPERM ends the process\<close>

lemma eperm_free_append:
  "eperm_free E h (a @ b) = (eperm_free E h a \<and> eperm_free E (h @ a) b)"
  by (induction a arbitrary: h) auto

lemma eperm_last_append:
  "b \<noteq> [] \<Longrightarrow> eperm_last E h (a @ b) = (eperm_free E h a \<and> eperm_last E (h @ a) b)"
proof (induction a arbitrary: h)
  case Nil
  show ?case by simp
next
  case (Cons c a)
  then obtain x xs where "a @ b = x # xs" by (cases "a @ b") auto
  with Cons show ?case by auto
qed

lemma eperm_fatalI:
  "h' = h @ new \<Longrightarrow>
   eperm_free E h new \<or> (out = Died bb_msg_perm_denied_are_you_root \<and> eperm_last E h new) \<Longrightarrow>
   eperm_fatal E h out h'"
  by (simp add: eperm_fatal_def)

lemma eperm_fatalE:
  assumes "eperm_fatal E h out h'"
  obtains new where "h' = h @ new"
    and "eperm_free E h new \<or> (out = Died bb_msg_perm_denied_are_you_root \<and> eperm_last E h new)"
proof -
  from assms have "h' = h @ drop (length h) h'"
    unfolding eperm_fatal_def by (metis append_take_drop_id)
  with assms that show ?thesis unfolding eperm_fatal_def by blast
qed

lemma eperm_fatal_refl [simp]: "eperm_fatal E h out h"
  by (simp add: eperm_fatal_def)

lemma eperm_fatal_Returned:
  "eperm_fatal E h (Returned a) h' \<Longrightarrow> eperm_fatal E h out h'"
  by (auto simp: eperm_fatal_def)

lemma eperm_last_nonempty: "eperm_last E h new \<Longrightarrow> new \<noteq> []"
  by (cases new) auto

lemma eperm_fatal_trans:
  assumes "eperm_fatal E h (Returned a) h1" and "eperm_fatal E h1 out h2"
  shows "eperm_fatal E h out h2"
proof -
  from assms(1) obtain n1 where n1: "h1 = h @ n1" and f1: "eperm_free E h n1"
    by (auto elim!: eperm_fatalE)
  from assms(2) obtain n2 where n2: "h2 = h1 @ n2"
    and f2: "eperm_free E h1 n2 \<or> (out = Died bb_msg_perm_denied_are_you_root \<and> eperm_last E h1 n2)"
    by (auto elim!: eperm_fatalE)
  show ?thesis
  proof (rule eperm_fatalI[where new = "n1 @ n2"])
    show "h2 = h @ n1 @ n2" using n1 n2 by simp
    show "eperm_free E h (n1 @ n2)
          \<or> (out = Died bb_msg_perm_denied_are_you_root \<and> eperm_last E h (n1 @ n2))"
      using f1 f2 n1 eperm_last_nonempty[of E h1 n2]
      by (auto simp: eperm_free_append eperm_last_append)
  qed
qed

lemma mount_cases:
  obtains (ok) "sys_mount E (mounts w) c = None"
      and "mount E c w = (0, w\<lparr>mounts := mounts w @ [c]\<rparr>)"
  | (fail) e where "sys_mount E (mounts w) c = Some e"
      and "mount E c w = (- 1, w\<lparr>errno := e, mounts := mounts w @ [c]\<rparr>)"
  by (cases "sys_mount E (mounts w) c") (auto simp: mount_def)

text \<open>What \<open>mount_it_now\<close> makes of the result of its loop.\<close>

lemma mount_it_now_after_retry:
  assumes "\<not> (ENABLE_FEATURE_MTAB_SUPPORT (build E) \<and> fakeIt w)"
    and "mount_retry E mp vfsflags filteropts w = (rc, w1)"
  shows "mounts (snd (snd (mount_it_now E mp vfsflags filteropts w))) = mounts w1"
    and "rc \<noteq> 0 \<and> errno w1 = EPERM \<Longrightarrow>
         fst (mount_it_now E mp vfsflags filteropts w) = Died bb_msg_perm_denied_are_you_root"
proof -
  obtain x w2 where u: "update_mtab E mp w1 = (x, w2)"
    by (cases "update_mtab E mp w1")
  have m: "mounts w2 = mounts w1" using mounts_update_mtab[of E mp w1] u by simp
  have nf: "(ENABLE_FEATURE_MTAB_SUPPORT (build E) \<and> fakeIt w) = False"
    using assms(1) by simp
  show "mounts (snd (snd (mount_it_now E mp vfsflags filteropts w))) = mounts w1"
    using m by (cases x) (simp_all add: mount_it_now_def nf assms(2) u)
  show "fst (mount_it_now E mp vfsflags filteropts w) = Died bb_msg_perm_denied_are_you_root"
    if "rc \<noteq> 0 \<and> errno w1 = EPERM"
    using that by (simp add: mount_it_now_def nf assms(2))
qed

lemma mount_it_now_eperm:
  "eperm_fatal E (mounts w) (fst (mount_it_now E mp vfsflags filteropts w))
     (mounts (snd (snd (mount_it_now E mp vfsflags filteropts w))))"
proof (cases "ENABLE_FEATURE_MTAB_SUPPORT (build E) \<and> fakeIt w")
  case True
  then show ?thesis by (simp add: mount_it_now_def)
next
  case nofake: False
  let ?c = "attempt mp vfsflags filteropts"
  let ?c' = "attempt mp (vfsflags OR MS_RDONLY) filteropts"
  let ?out = "fst (mount_it_now E mp vfsflags filteropts w)"
  note after = mount_it_now_after_retry[OF nofake]
  show ?thesis
  proof (cases rule: mount_cases[of E w ?c])
    case ok
    have r: "mount_retry E mp vfsflags filteropts w = (0, w\<lparr>mounts := mounts w @ [?c]\<rparr>)"
      by (simp add: mount_retry_unfold ok(2))
    show ?thesis
      by (rule eperm_fatalI[where new = "[?c]"]) (use after(1)[OF r] ok(1) in simp_all)
  next
    case (fail e)
    show ?thesis
    proof (cases "vfsflags AND MS_RDONLY \<noteq> 0 \<or> (e \<noteq> EACCES \<and> e \<noteq> EROFS)")
      case True
      then have r: "mount_retry E mp vfsflags filteropts w
                      = (- 1, w\<lparr>errno := e, mounts := mounts w @ [?c]\<rparr>)"
        by (auto simp: mount_retry_unfold fail(2))
      show ?thesis
      proof (rule eperm_fatalI[where new = "[?c]"])
        show "mounts (snd (snd (mount_it_now E mp vfsflags filteropts w))) = mounts w @ [?c]"
          using after(1)[OF r] by simp
        show "eperm_free E (mounts w) [?c]
              \<or> (?out = Died bb_msg_perm_denied_are_you_root \<and> eperm_last E (mounts w) [?c])"
          using after(2)[OF r] fail(1) by (cases "e = EPERM") simp_all
      qed
    next
      case False
      then have e: "e \<noteq> EPERM" using EPERM_other by auto
      let ?w1 = "bb_error_msg (mnt_fsname mp @ '' is write-protected, mounting read-only'')
                   (w\<lparr>errno := e, mounts := mounts w @ [?c]\<rparr>)"
      have r: "mount_retry E mp vfsflags filteropts w = mount E ?c' ?w1"
        using False by (auto simp: mount_retry_unfold fail(2))
      have h1: "mounts ?w1 = mounts w @ [?c]" by simp
      show ?thesis
      proof (cases rule: mount_cases[of E ?w1 ?c'])
        case ok
        have r2: "mount_retry E mp vfsflags filteropts w = (0, ?w1\<lparr>mounts := mounts ?w1 @ [?c']\<rparr>)"
          using r ok(2) by simp
        show ?thesis
          by (rule eperm_fatalI[where new = "[?c, ?c']"])
            (use after(1)[OF r2] fail(1) e ok(1) in simp_all)
      next
        case fail2: (fail e2)
        have r2: "mount_retry E mp vfsflags filteropts w
                    = (- 1, ?w1\<lparr>errno := e2, mounts := mounts ?w1 @ [?c']\<rparr>)"
          using r fail2(2) by simp
        show ?thesis
        proof (rule eperm_fatalI[where new = "[?c, ?c']"])
          show "mounts (snd (snd (mount_it_now E mp vfsflags filteropts w)))
                  = mounts w @ [?c, ?c']"
            using after(1)[OF r2] by simp
          show "eperm_free E (mounts w) [?c, ?c']
              \<or> (?out = Died bb_msg_perm_denied_are_you_root
                  \<and> eperm_last E (mounts w) [?c, ?c'])"
            using after(2)[OF r2] fail(1) e fail2(1) by (cases "e2 = EPERM") simp_all
        qed
      qed
    qed
  qed
qed

lemma autodetect_eperm:
  "eperm_fatal E (mounts w) (fst (singlemount_autodetect E mp vfsflags filteropts fls rc w))
     (mounts (snd (snd (singlemount_autodetect E mp vfsflags filteropts fls rc w))))"
proof (induction fls arbitrary: mp rc w)
  case Nil
  show ?case by simp
next
  case (Cons fl fls)
  obtain out1 mp1 w1 where m: "mount_it_now E (mp\<lparr>mnt_type := Some fl\<rparr>) vfsflags filteropts w
      = (out1, mp1, w1)"
    by (cases "mount_it_now E (mp\<lparr>mnt_type := Some fl\<rparr>) vfsflags filteropts w") auto
  have f: "eperm_fatal E (mounts w) out1 (mounts w1)"
    using mount_it_now_eperm[of E w "mp\<lparr>mnt_type := Some fl\<rparr>" vfsflags filteropts] m by simp
  show ?case
  proof (cases out1)
    case (Died msg)
    then show ?thesis using f m by simp
  next
    case Undefined
    then show ?thesis using f m by simp
  next
    case (Returned rc1)
    show ?thesis
    proof (cases "rc1 = 0")
      case True
      then show ?thesis using f m Returned by simp
    next
      case False
      have "eperm_fatal E (mounts w1)
              (fst (singlemount_autodetect E (mp1\<lparr>mnt_type := None\<rparr>) vfsflags filteropts fls rc1 w1))
              (mounts (snd (snd (singlemount_autodetect E (mp1\<lparr>mnt_type := None\<rparr>) vfsflags
                                   filteropts fls rc1 w1))))"
        by (rule Cons.IH)
      from eperm_fatal_trans[OF f[unfolded Returned] this]
      show ?thesis using m Returned False by simp
    qed
  qed
qed

lemma mounts_block_backed_files [simp]:
  "mounts (snd (block_backed_files E paths list w)) = mounts w"
  by (induction paths arbitrary: list w) (auto split: sum.splits)

lemma mounts_get_block_backed_filesystems [simp]:
  "mounts (snd (get_block_backed_filesystems E w)) = mounts w"
  unfolding get_block_backed_filesystems_def by (rule mounts_block_backed_files)

lemma singlemount_mount_eperm:
  "eperm_fatal E (mounts w) (fst (singlemount_mount E mp vfsflags filteropts w))
     (mounts (snd (snd (singlemount_mount E mp vfsflags filteropts w))))"
proof (cases "mnt_type mp \<noteq> None \<or> vfsflags AND (MS_REMOUNT OR MS_BIND OR MS_MOVE) \<noteq> 0")
  case True
  then show ?thesis
    using mount_it_now_eperm[of E w mp vfsflags filteropts]
    by (simp add: singlemount_mount_def)
next
  case False
  define w1 where "w1 = (if fslist w = []
                   then (case get_block_backed_filesystems E w of
                           (l, w') \<Rightarrow> w'\<lparr>fslist := l\<rparr>)
                   else w)"
  have m: "mounts w1 = mounts w"
  proof (cases "fslist w = []")
    case True
    obtain l w' where g: "get_block_backed_filesystems E w = (l, w')"
      by (cases "get_block_backed_filesystems E w")
    have "mounts w' = mounts w" using mounts_get_block_backed_filesystems[of E w] g by simp
    then show ?thesis by (simp add: w1_def True g)
  next
    case False
    then show ?thesis by (simp add: w1_def)
  qed
  have "singlemount_mount E mp vfsflags filteropts w
          = singlemount_autodetect E mp vfsflags filteropts (fslist w1) (- 1) w1"
    using False by (simp add: singlemount_mount_def w1_def Let_def)
  then show ?thesis
    using autodetect_eperm[of E w1 mp vfsflags filteropts "fslist w1" "- 1"] m by simp
qed

lemma report_error_eperm [simp]:
  "eperm_fatal E h (fst (report_error mp ignore_busy rc w)) h' = eperm_fatal E h (Returned rc) h'"
  by (simp add: report_error_def Let_def eperm_fatal_def)

lemma mounts_report_error [simp]:
  "mounts (snd (snd (report_error mp ignore_busy rc w))) = mounts w"
  by (simp add: report_error_def Let_def)

text \<open>A call of \<open>mount_it_now\<close> followed by the report of its code.\<close>

lemma mount_it_now_report_eperm:
  assumes "mounts w1 = mounts w"
  shows "eperm_fatal E (mounts w)
      (fst (case mount_it_now E mp2 fl fo w1 of
              (Died msg, mp3, w3) \<Rightarrow> (Died msg, mp3, w3)
            | (Undefined, mp3, w3) \<Rightarrow> (Undefined, mp3, w3)
            | (Returned rc, mp3, w3) \<Rightarrow> report_error mp3 ignore_busy rc w3))
      (mounts (snd (snd (case mount_it_now E mp2 fl fo w1 of
              (Died msg, mp3, w3) \<Rightarrow> (Died msg, mp3, w3)
            | (Undefined, mp3, w3) \<Rightarrow> (Undefined, mp3, w3)
            | (Returned rc, mp3, w3) \<Rightarrow> report_error mp3 ignore_busy rc w3))))"
proof -
  obtain out mp3 w3 where m: "mount_it_now E mp2 fl fo w1 = (out, mp3, w3)"
    by (cases "mount_it_now E mp2 fl fo w1") auto
  have "eperm_fatal E (mounts w) out (mounts w3)"
    using mount_it_now_eperm[of E w1 mp2 fl fo] m assms by simp
  then show ?thesis by (cases out) (simp_all add: m)
qed

lemma singlemount_cifs_eperm:
  "eperm_fatal E (mounts w) (fst (singlemount_cifs E mp vfsflags filteropts ignore_busy w))
     (mounts (snd (snd (singlemount_cifs E mp vfsflags filteropts ignore_busy w))))"
proof -
  let ?unc = "map (\<lambda>c. if c = CHR ''/'' then BACKSLASH else c) (mnt_fsname mp)"
  let ?S = "singlemount_cifs E mp vfsflags filteropts ignore_busy w"
  show ?thesis
  proof (cases "strrchr ?unc BACKSLASH")
    case None
    then show ?thesis by (simp add: singlemount_cifs_def Let_def)
  next
    case (Some s)
    show ?thesis
    proof (cases "s = 1")
      case True
      then show ?thesis using Some by (simp add: singlemount_cifs_def Let_def)
    next
      case s1: False
      show ?thesis
      proof (cases "gethostbyname E (take (s - 2) (drop 2 ?unc))")
        case None
        then show ?thesis using Some s1 by (simp add: singlemount_cifs_def Let_def)
      next
        case host: (Some q)
        obtain a0 a1 a2 a3 where q: "q = (a0, a1, a2, a3)" by (cases q) auto
        obtain a w1 where x: "xmalloc w = (a, w1)" by (cases "xmalloc w")
        have w1: "mounts w1 = mounts w" using kept_xmalloc[OF x] by (simp add: kept_def)
        let ?f = "if ENABLE_FEATURE_CLEAN_UP (build E)
                  then free (fsname_at (mp\<lparr>mnt_fsname := ?unc\<rparr>)) w1 else Some w1"
        show ?thesis
        proof (cases ?f)
          case None
          then have "?S = (Undefined, mp\<lparr>mnt_fsname := ?unc\<rparr>, w1)"
            using Some s1 host q x by (simp add: singlemount_cifs_def Let_def)
          then show ?thesis using w1 by simp
        next
          case fr: (Some w2)
          have w2: "mounts w2 = mounts w"
            using fr w1 kept_free[of "fsname_at (mp\<lparr>mnt_fsname := ?unc\<rparr>)" w1 w2]
            by (auto simp: kept_def split: if_splits)
          show ?thesis
            using Some s1 host q x fr
            by (simp add: singlemount_cifs_def Let_def mount_it_now_report_eperm[OF w2])
        qed
      qed
    qed
  qed
qed

lemma mounts_singlemount_lstat:
  "singlemount_lstat E mp vfsflags w = Inl (e, mp1, w1) \<Longrightarrow> mounts w1 = mounts w"
  "singlemount_lstat E mp vfsflags w = Inr (mp2, vfsflags2, loopFile, w1) \<Longrightarrow> mounts w1 = mounts w"
  by (auto simp: singlemount_lstat_def Let_def xmalloc_def
      split: sum.splits if_splits prod.splits)

lemma mounts_singlemount_del_loop:
  "singlemount_del_loop E mp loopFile rc w = Some w1 \<Longrightarrow> mounts w1 = mounts w"
  by (auto simp: singlemount_del_loop_def Let_def free_def split: if_splits origin.splits)

lemma singlemount_local_eperm:
  "eperm_fatal E (mounts w) (fst (singlemount_local E mp vfsflags filteropts ignore_busy w))
     (mounts (snd (snd (singlemount_local E mp vfsflags filteropts ignore_busy w))))"
proof (cases "singlemount_lstat E mp vfsflags w")
  case (Inl a)
  then obtain e mp1 w1 where l: "singlemount_lstat E mp vfsflags w = Inl (e, mp1, w1)"
    by (cases a) auto
  from mounts_singlemount_lstat(1)[OF l] show ?thesis
    by (simp add: singlemount_local_def l)
next
  case (Inr b)
  then obtain mp2 vfsflags2 loopFile w1 where
    l: "singlemount_lstat E mp vfsflags w = Inr (mp2, vfsflags2, loopFile, w1)"
    by (cases b) auto
  have w1: "mounts w1 = mounts w" by (rule mounts_singlemount_lstat(2)[OF l])
  obtain out mp3 w2 where m: "singlemount_mount E mp2 vfsflags2 filteropts w1 = (out, mp3, w2)"
    by (cases "singlemount_mount E mp2 vfsflags2 filteropts w1") auto
  have f: "eperm_fatal E (mounts w) out (mounts w2)"
    using singlemount_mount_eperm[of E w1 mp2 vfsflags2 filteropts] m w1 by simp
  show ?thesis
  proof (cases out)
    case (Died msg)
    then show ?thesis using f by (simp add: singlemount_local_def l m)
  next
    case Undefined
    then show ?thesis using f by (simp add: singlemount_local_def l m)
  next
    case (Returned rc)
    show ?thesis
    proof (cases "singlemount_del_loop E mp3 loopFile rc w2")
      case None
      then show ?thesis
        using f Returned eperm_fatal_Returned[of E "mounts w" rc "mounts w2" Undefined]
        by (simp add: singlemount_local_def l m)
    next
      case (Some w3)
      from mounts_singlemount_del_loop[OF Some] show ?thesis
        using f Returned Some by (simp add: singlemount_local_def l m)
    qed
  qed
qed

lemma singlemount_branch_eperm:
  "eperm_fatal E (mounts w) (fst (singlemount_branch E mp vfsflags filteropts ignore_busy w))
     (mounts (snd (snd (singlemount_branch E mp vfsflags filteropts ignore_busy w))))"
  unfolding singlemount_branch_def
  using singlemount_cifs_eperm[of E w mp vfsflags filteropts ignore_busy]
    singlemount_local_eperm[of E w mp vfsflags filteropts ignore_busy]
  by (simp split: prod.splits)

lemma singlemount_eperm:
  "eperm_fatal E (mounts w) (fst (singlemount E mp ignore_busy w))
     (mounts (snd (snd (singlemount E mp ignore_busy w))))"
  unfolding singlemount_def Let_def
  by (simp add: singlemount_branch_eperm split: prod.splits)

lemma mount_last_found_eperm:
  "eperm_fatal E (mounts w) (fst (mount_last_found E cmdopts m w))
     (mounts (snd (mount_last_found E cmdopts m w)))"
proof -
  obtain a w1 where x: "xmalloc w = (a, w1)" by (cases "xmalloc w")
  obtain p w2 where
    ap: "append_mount_options (build E) (mnt_opts m, Heap a) cmdopts w1 = (p, w2)"
    by (cases "append_mount_options (build E) (mnt_opts m, Heap a) cmdopts w1")
  have w2: "mounts w2 = mounts w"
    using kept_xmalloc[OF x] kept_append_mount_options[OF ap] by (simp add: kept_def)
  show ?thesis
  proof (cases p)
    case None
    then show ?thesis using w2 by (simp add: mount_last_found_def x ap)
  next
    case (Some q)
    obtain s at where q: "q = (s, at)" by (cases q)
    let ?m = "m\<lparr>mnt_opts := s, opts_at := at\<rparr>"
    obtain out m1 w3 where s: "singlemount E ?m False w2 = (out, m1, w3)"
      by (cases "singlemount E ?m False w2") auto
    have f: "eperm_fatal E (mounts w) out (mounts w3)"
      using singlemount_eperm[of E w2 ?m False] s w2 by simp
    show ?thesis
    proof (cases out)
      case (Died msg)
      then show ?thesis using f by (simp add: mount_last_found_def x ap Some q s)
    next
      case Undefined
      then show ?thesis using f by (simp add: mount_last_found_def x ap Some q s)
    next
      case (Returned rc)
      show ?thesis
      proof (cases "free (opts_at m1) w3")
        case None
        then show ?thesis
          using f Returned eperm_fatal_Returned[of E "mounts w" rc "mounts w3" Undefined]
          by (simp add: mount_last_found_def x ap Some q s)
      next
        case fr: (Some w4)
        have "mounts w4 = mounts w3" using kept_free[OF fr] by (simp add: kept_def)
        then show ?thesis
          using f Returned fr by (simp add: mount_last_found_def x ap Some q s)
      qed
    qed
  qed
qed

lemma mount_main_loop_eperm:
  "eperm_fatal E (mounts w)
     (fst (mount_main_loop E cmdopts fstype target storage_path fstabname rs mtpair mtcur rc w))
     (mounts (snd (mount_main_loop E cmdopts fstype target storage_path fstabname rs mtpair
                     mtcur rc w)))"
proof (induction rs arbitrary: mtpair mtcur rc w)
  case Nil
  show ?case using mount_last_found_eperm by (auto split: option.splits)
next
  case (Cons r rs)
  have ih: "eperm_fatal E (mounts w')
         (fst (mount_main_loop E cmdopts fstype target storage_path fstabname rs pr mc rc' w'))
         (mounts (snd (mount_main_loop E cmdopts fstype target storage_path fstabname rs pr
                     mc rc' w')))" for pr mc rc' w'
    by (rule Cons.IH)
  show ?case
  proof (cases target)
    case (Some t)
    then show ?thesis using ih by (simp add: Let_def)
  next
    case None
    obtain fl u mem where
      p: "parse_mount_options (build E) (in_memory (mnt_opts r)) 0 None = (fl, u, mem)"
      by (cases "parse_mount_options (build E) (in_memory (mnt_opts r)) 0 None") auto
    obtain out r2 w1 where
      s: "singlemount E (r\<lparr>mnt_opts := c_string mem 0\<rparr>) True w = (out, r2, w1)"
      by (cases "singlemount E (r\<lparr>mnt_opts := c_string mem 0\<rparr>) True w") auto
    have f: "eperm_fatal E (mounts w) out (mounts w1)"
      using singlemount_eperm[of E w "r\<lparr>mnt_opts := c_string mem 0\<rparr>" True] s by simp
    let ?L = "mount_main_loop E cmdopts fstype target storage_path fstabname"
    show ?thesis
    proof (cases "fstype \<noteq> None \<and> mnt_type r \<noteq> fstype")
      case True
      then have "?L (r # rs) mtpair mtcur rc w = ?L rs (store_slot mtpair mtcur r) mtcur rc w"
        using None by (simp add: Let_def)
      then show ?thesis by (simp only: ih)
    next
      case nt: False
      show ?thesis
      proof (cases "fl AND (MOUNT_NOAUTO OR MOUNT_SWAP) \<noteq> 0")
        case True
        then have "?L (r # rs) mtpair mtcur rc w
            = ?L rs (store_slot mtpair mtcur (r\<lparr>mnt_opts := c_string mem 0\<rparr>)) mtcur rc w"
          using None nt by (auto simp: Let_def p)
        then show ?thesis by (simp only: ih)
      next
        case na: False
        show ?thesis
        proof (cases out)
          case (Died msg)
          have "?L (r # rs) mtpair mtcur rc w = (Died msg, w1)"
            using None nt na Died by (auto simp: Let_def p s)
          then show ?thesis using f Died by simp
        next
          case Undefined
          have "?L (r # rs) mtpair mtcur rc w = (Undefined, w1)"
            using None nt na Undefined by (auto simp: Let_def p s)
          then show ?thesis using f Undefined by simp
        next
          case (Returned x)
          have e: "?L (r # rs) mtpair mtcur rc w
            = ?L rs (store_slot mtpair mtcur r2) mtcur (if x \<noteq> 0 then rc + 1 else rc) w1"
            using None nt na Returned by (auto simp: Let_def p s)
          from eperm_fatal_trans[OF f[unfolded Returned] ih]
          show ?thesis by (simp only: e)
        qed
      qed
    qed
  qed
qed

section \<open>Properties of singlemount and of the table scan\<close>

subsection \<open>The table loop\<close>

lemma mtnext_twice: "slot (store_slot mtpair mtcur r) (mtnext_of (mtnext_of mtcur)) = Some r"
  by (simp add: slot_def store_slot_def mtnext_of_def)

lemma mtnext_other:
  "slot (store_slot mtpair mtcur r) (mtnext_of mtcur) = slot mtpair (mtnext_of mtcur)"
  by (simp add: slot_def store_slot_def mtnext_of_def)

lemma mount_main_loop_target:
  "mount_main_loop E cmdopts fstype (Some t) (Some sp) fstabname rs mtpair mtcur rc w =
     (case (case filter (matches t sp) rs of
              [] \<Rightarrow> slot mtpair (mtnext_of mtcur)
            | m # ms \<Rightarrow> Some (last (m # ms))) of
        None \<Rightarrow> (Died (''can'' @ [CHR 0x27] @ ''t find '' @ t @ '' in '' @ fstabname), w)
      | Some m \<Rightarrow> mount_last_found E cmdopts m w)"
proof (induction rs arbitrary: mtpair mtcur)
  case Nil
  show ?case by simp
next
  case (Cons r rs)
  let ?L = "mount_main_loop E cmdopts fstype (Some t) (Some sp) fstabname"
  show ?case
  proof (cases "matches t sp r")
    case True
    then have e: "?L (r # rs) mtpair mtcur rc w
                    = ?L rs (store_slot mtpair mtcur r) (mtnext_of mtcur) rc w"
      by (auto simp: matches_def Let_def)
    show ?thesis
      unfolding e Cons.IH using True
      by (cases "filter (matches t sp) rs") (simp_all add: mtnext_twice)
  next
    case False
    then have e: "?L (r # rs) mtpair mtcur rc w = ?L rs (store_slot mtpair mtcur r) mtcur rc w"
      by (auto simp: matches_def Let_def)
    show ?thesis
      unfolding e Cons.IH using False
      by (cases "filter (matches t sp) rs") (simp_all add: mtnext_other)
  qed
qed

lemma resolve_in_memory:
  "NUL \<notin> set s \<Longrightarrow> parse_mount_options cfg (in_memory s) 0 None = (resolve cfg s, None, in_memory s)"
  by (simp add: resolve_def parse_mount_options_in_memory)

lemma mount_main_table:
  assumes "NUL \<notin> set cmdopts" and "all \<or> args \<noteq> []" and "length args \<noteq> 2"
    and "\<not> shared_subtree (build E) cmdopts"
  shows "mount_main E cmdopts fstype all args behind w =
     (case table_records E cmdopts w of
        None \<Rightarrow> (Died (''cannot read '' @ table_name (build E) cmdopts), snd (xmalloc w))
      | Some rs \<Rightarrow>
          clean_up E (Heap (brk w))
            (mount_main_loop E cmdopts fstype
               (case args of [] \<Rightarrow> None | a # as \<Rightarrow> Some a)
               (case args of [] \<Rightarrow> None | a # as \<Rightarrow> Some (bb_simplify_path E a))
               (table_name (build E) cmdopts) rs (None, None) 0 0 (snd (xmalloc w))))"
proof -
  have a: "(args = [] \<and> \<not> all) = False" using assms(2) by auto
  have s: "(ENABLE_FEATURE_MOUNT_FLAGS (build E)
            \<and> resolve (build E) cmdopts
                AND (MS_SHARED OR MS_PRIVATE OR MS_SLAVE OR MS_UNBINDABLE) \<noteq> 0) = False"
    using assms(4) by (simp add: shared_subtree_def)
  show ?thesis
    using assms(3)
    by (simp add: mount_main_def xmalloc_def Let_def a s resolve_in_memory[OF assms(1)]
        c_string_in_memory[OF assms(1)] table_name_def table_records_def
        split: option.splits)
qed

lemma mount_last_found_own:
  "mount_last_found E cmdopts m w =
     (case own_options (build E) cmdopts m w of
        (r, w1) \<Rightarrow>
          (case singlemount E r False w1 of
             (Died msg, r', w2) \<Rightarrow> (Died msg, w2)
           | (Undefined, r', w2) \<Rightarrow> (Undefined, w2)
           | (Returned rc, r', w2) \<Rightarrow>
               (case free (opts_at r') w2 of
                  None \<Rightarrow> (Undefined, w2)
                | Some w3 \<Rightarrow> (Returned rc, w3))))"
proof -
  have e: "insert (Suc (brk w)) (insert (brk w) (live w)) - {brk w}
             = insert (Suc (brk w)) (live w - {brk w})"
    "insert (brk w) (live w) - {brk w} = live w - {brk w}"
    by auto
  obtain w1 where x: "xmalloc w = (brk w, w1)"
    and w1: "w1 = w\<lparr>live := insert (brk w) (live w), brk := Suc (brk w)\<rparr>"
    by (simp add: xmalloc_def)
  obtain w2 where o: "own_options (build E) cmdopts m w
             = (m\<lparr>mnt_opts := joined_options (mnt_opts m) cmdopts,
                  opts_at := Heap (Suc (brk w))\<rparr>, w2)"
    and w2: "w2 = snd (own_options (build E) cmdopts m w)"
    by (simp add: own_options_def)
  have a: "append_mount_options (build E) (mnt_opts m, Heap (brk w)) cmdopts w1
             = (Some (joined_options (mnt_opts m) cmdopts, Heap (Suc (brk w))), w2)"
    unfolding w1 w2
    by (simp add: append_mount_options_def xmalloc_def free_def own_options_def
        joined_options_def e)
  show ?thesis
    by (simp add: mount_last_found_def x a o)
qed

subsection \<open>State that a mount attempt leaves alone\<close>

lemma bind_set: "(x OR MS_BIND) AND (MS_REMOUNT OR MS_BIND OR MS_MOVE) \<noteq> 0"
proof
  assume z: "(x OR MS_BIND) AND (MS_REMOUNT OR MS_BIND OR MS_MOVE) = 0"
  have "((x OR MS_BIND) AND (MS_REMOUNT OR MS_BIND OR MS_MOVE)) AND MS_BIND = MS_BIND"
    by (rule bit_word_eqI) (auto simp: bit_and_iff bit_or_iff)
  with z have "MS_BIND = 0" by simp
  then show False by (simp add: MS_BIND_def)
qed

lemma fslist_mount [simp]: "fslist (snd (mount E c w)) = fslist w"
  by (simp add: mount_def split: option.splits)

lemma fslist_bb_error_msg [simp]: "fslist (bb_error_msg m w) = fslist w"
  by (simp add: bb_error_msg_def)

lemma fslist_mount_retry: "fslist (snd (mount_retry E mp vfsflags filteropts w)) = fslist w"
proof -
  obtain rc w1 where m: "mount E (attempt mp vfsflags filteropts) w = (rc, w1)"
    by (cases "mount E (attempt mp vfsflags filteropts) w")
  have "fslist w1 = fslist w" using fslist_mount[of E "attempt mp vfsflags filteropts" w] m by simp
  then show ?thesis by (simp add: mount_retry_unfold m)
qed

lemma fslist_mount_it_now:
  "fslist (snd (snd (mount_it_now E mp vfsflags filteropts w))) = fslist w"
proof -
  obtain rc w1 where r: "mount_retry E mp vfsflags filteropts w = (rc, w1)"
    by (cases "mount_retry E mp vfsflags filteropts w")
  have w1: "fslist w1 = fslist w" using fslist_mount_retry[of E mp vfsflags filteropts w] r by simp
  obtain x w2 where u: "update_mtab E mp w1 = (x, w2)"
    by (cases "update_mtab E mp w1")
  have w2: "fslist w2 = fslist w" using kept_update_mtab[OF u] w1 by (simp add: kept_def)
  show ?thesis by (cases x) (simp_all add: mount_it_now_def r u w1 w2)
qed

lemma fslist_report_error [simp]: "fslist (snd (snd (report_error mp ib rc w))) = fslist w"
  by (simp add: report_error_def Let_def)

lemma singlemount_del_loop_none [simp]: "singlemount_del_loop E mp None rc w = Some w"
  by (simp add: singlemount_del_loop_def)

subsection \<open>Runs of the examples\<close>

lemma parse_defaults:
  "parse_mount_options all_features (in_memory ''defaults'') 0 u
     = (MS_SILENT, u, in_memory ''defaults'')"
proof -
  have n: "NUL \<notin> set ''defaults''" by (simp add: NUL_def)
  have m: "option_mask all_features ''defaults'' = Some 0"
    by (simp add: option_mask_def mount_options_def all_features_def tolower_eval)
  show ?thesis
    unfolding parse_mount_options_in_memory[OF n]
    by (simp add: m unmatched_def flag_effect_def option.map_ident)
qed

lemma c_string_defaults: "c_string (in_memory ''defaults'') 0 = ''defaults''"
  by (simp add: c_string_in_memory NUL_def)

lemma nul_defaults: "NUL \<notin> set ''defaults''" by (simp add: NUL_def)

lemma parse_defaults_ro:
  "parse_mount_options all_features (in_memory ''defaults,ro'') 0 u
     = (MS_SILENT OR MS_RDONLY, u, in_memory ''defaults,ro'')"
proof -
  have n: "NUL \<notin> set ''defaults,ro''" by (simp add: NUL_def)
  have m: "option_mask all_features ''defaults'' = Some 0"
    "option_mask all_features ''ro'' = Some MS_RDONLY"
    by (simp_all add: option_mask_def mount_options_def all_features_def tolower_eval)
  have s: "split_on CHR '','' ''defaults,ro'' = [''defaults'', ''ro'']" by simp
  show ?thesis
    unfolding parse_mount_options_in_memory[OF n] s
    by (simp add: m unmatched_def flag_effect_def option.map_ident MS_defs)
qed

lemma c_string_defaults_ro: "c_string (in_memory ''defaults,ro'') 0 = ''defaults,ro''"
  by (simp add: c_string_in_memory NUL_def)

lemmas run_simps = singlemount_branch_def
      singlemount_local_def singlemount_lstat_def singlemount_mount_def mount_it_now_def
      mount_retry_unfold mount_def attempt_def quiet_env_def
      all_features_def c_at_def BACKSLASH_def EPERM_def EACCES_def EROFS_def EBUSY_def MS_defs
      report_error_def bb_error_msg_def Let_def

lemma resolve_defaults: "resolve all_features ''defaults'' = MS_SILENT"
  by (simp add: resolve_def parse_defaults)

lemma resolve_ro: "resolve all_features ''ro'' = MS_SILENT OR MS_RDONLY"
proof -
  have n: "NUL \<notin> set ''ro''" by (simp add: NUL_def)
  have m: "option_mask all_features ''ro'' = Some MS_RDONLY"
    by (simp add: option_mask_def mount_options_def all_features_def tolower_eval)
  show ?thesis unfolding resolve_tokens[OF n] by (simp add: m flag_effect_def MS_defs)
qed

lemma filter_options_defaults: "filter_options all_features ''defaults'' = None"
proof -
  have m: "option_mask all_features ''defaults'' = Some 0"
    by (simp add: option_mask_def mount_options_def all_features_def tolower_eval)
  show ?thesis by (simp add: filter_options_def unmatched_def m)
qed

lemma build_fatal_env [simp]: "build fatal_env = all_features"
  by (simp add: fatal_env_def quiet_env_def)

lemma build_table_env [simp]: "build table_env = all_features"
  by (simp add: table_env_def quiet_env_def)

lemma singlemount_fatal:
  "singlemount fatal_env ext2_record True start_world
     = (Died bb_msg_perm_denied_are_you_root, ext2_record,
        start_world\<lparr>errno := EPERM, mounts := [attempt ext2_record MS_SILENT None]\<rparr>)"
  by (simp add: singlemount_def parse_defaults c_string_defaults ext2_record_def)
     (simp add: run_simps fatal_env_def start_world_def)

lemma not_skipped_defaults:
  "build E = all_features \<Longrightarrow> mnt_opts r = ''defaults'' \<Longrightarrow> \<not> skipped E None r"
  by (simp add: skipped_def resolve_defaults MS_defs)

lemma loop_fatal:
  "mount_main_loop fatal_env ''defaults'' None None None ''/etc/fstab''
      [ext2_record, proc_record] (None, None) 0 0 start_world
     = (Died bb_msg_perm_denied_are_you_root,
        start_world\<lparr>errno := EPERM, mounts := [attempt ext2_record MS_SILENT None]\<rparr>)"
proof -
  have o: "mnt_opts ext2_record = ''defaults''" by (simp add: ext2_record_def)
  have r: "ext2_record\<lparr>mnt_opts := ''defaults''\<rparr> = ext2_record" by (simp add: ext2_record_def)
  have z: "MS_SILENT AND (MOUNT_NOAUTO OR MOUNT_SWAP) = 0" by (simp add: MS_defs)
  show ?thesis
    by (simp add: Let_def o parse_defaults c_string_defaults r z singlemount_fatal)
qed

subsection \<open>EPERM is fatal\<close>

text \<open>
  C3. When the last \<open>mount(2)\<close> attempt of \<open>mount_it_now\<close> fails and \<open>errno\<close> is \<open>EPERM\<close>,
  \<open>mount_it_now\<close> does not return: the process dies with the "are you root?"
  diagnostic. For \<open>mount_it_now\<close>, for \<open>singlemount\<close> and for the loop of \<open>mount_main\<close>
  over a table, the log of \<open>mount(2)\<close> calls shows it: either no call made failed with
  \<open>EPERM\<close>, or the one that did is the last call made and the process died with the
  diagnostic, so no later table entry was attempted.
\<close>

theorem mount_eperm_is_fatal:
  "(\<not> (ENABLE_FEATURE_MTAB_SUPPORT (build E) \<and> fakeIt w)
      \<and> fst (mount_retry E mp vfsflags filteropts w) \<noteq> 0
      \<and> errno (snd (mount_retry E mp vfsflags filteropts w)) = EPERM
    \<longrightarrow> fst (mount_it_now E mp vfsflags filteropts w) = Died bb_msg_perm_denied_are_you_root)
   \<and> eperm_fatal E (mounts w) (fst (mount_it_now E mp vfsflags filteropts w))
        (mounts (snd (snd (mount_it_now E mp vfsflags filteropts w))))
   \<and> eperm_fatal E (mounts w) (fst (singlemount E mp ignore_busy w))
        (mounts (snd (snd (singlemount E mp ignore_busy w))))
   \<and> eperm_fatal E (mounts w)
        (fst (mount_main_loop E cmdopts fstype target storage_path fstabname rs mtpair mtcur
                rc w))
        (mounts (snd (mount_main_loop E cmdopts fstype target storage_path fstabname rs mtpair
                        mtcur rc w)))"
proof -
  have a: "fst (mount_it_now E mp vfsflags filteropts w) = Died bb_msg_perm_denied_are_you_root"
    if "\<not> (ENABLE_FEATURE_MTAB_SUPPORT (build E) \<and> fakeIt w)"
      and "fst (mount_retry E mp vfsflags filteropts w) \<noteq> 0"
      and "errno (snd (mount_retry E mp vfsflags filteropts w)) = EPERM"
    using that by (cases "mount_retry E mp vfsflags filteropts w") (auto simp: mount_it_now_def)
  from a mount_it_now_eperm[of E w mp vfsflags filteropts]
    singlemount_eperm[of E w mp ignore_busy]
    mount_main_loop_eperm[of E w cmdopts fstype target storage_path fstabname rs mtpair mtcur rc]
  show ?thesis by blast
qed

theorem mount_eperm_is_fatal_witness:
  "\<not> (ENABLE_FEATURE_MTAB_SUPPORT (build fatal_env) \<and> fakeIt start_world)
   \<and> fst (mount_retry fatal_env ext2_record MS_SILENT None start_world) \<noteq> 0
   \<and> errno (snd (mount_retry fatal_env ext2_record MS_SILENT None start_world)) = EPERM
   \<and> fst (mount_it_now fatal_env ext2_record MS_SILENT None start_world)
       = Died bb_msg_perm_denied_are_you_root
   \<and> mount_main_loop fatal_env ''defaults'' None None None ''/etc/fstab''
        [ext2_record, proc_record] (None, None) 0 0 start_world
       = (Died bb_msg_perm_denied_are_you_root,
          start_world\<lparr>errno := EPERM, mounts := [attempt ext2_record MS_SILENT None]\<rparr>)
   \<and> eperm_fatal fatal_env [] (Died bb_msg_perm_denied_are_you_root)
        [attempt ext2_record MS_SILENT None]"
proof -
  have f: "\<not> (ENABLE_FEATURE_MTAB_SUPPORT (build fatal_env) \<and> fakeIt start_world)"
    by (simp add: start_world_def)
  have r: "mount_retry fatal_env ext2_record MS_SILENT None start_world
             = (- 1, start_world\<lparr>errno := EPERM,
                                 mounts := [attempt ext2_record MS_SILENT None]\<rparr>)"
    by (simp add: mount_retry_unfold mount_def fatal_env_def quiet_env_def start_world_def
        EPERM_def EACCES_def EROFS_def)
  have r1: "fst (mount_retry fatal_env ext2_record MS_SILENT None start_world) \<noteq> 0"
    and r2: "errno (snd (mount_retry fatal_env ext2_record MS_SILENT None start_world)) = EPERM"
    by (simp_all add: r)
  have m: "mounts start_world = []" by (simp add: start_world_def)
  note t = mount_eperm_is_fatal[of fatal_env start_world ext2_record MS_SILENT None True
      "''defaults''" None None None "''/etc/fstab''" "[ext2_record, proc_record]"
      "(None, None)" 0 0]
  from t f r1 r2
  have d: "fst (mount_it_now fatal_env ext2_record MS_SILENT None start_world)
             = Died bb_msg_perm_denied_are_you_root" by blast
  from t have "eperm_fatal fatal_env (mounts start_world)
        (fst (mount_main_loop fatal_env ''defaults'' None None None ''/etc/fstab''
                [ext2_record, proc_record] (None, None) 0 0 start_world))
        (mounts (snd (mount_main_loop fatal_env ''defaults'' None None None ''/etc/fstab''
                [ext2_record, proc_record] (None, None) 0 0 start_world)))" by blast
  then have e: "eperm_fatal fatal_env [] (Died bb_msg_perm_denied_are_you_root)
        [attempt ext2_record MS_SILENT None]"
    unfolding loop_fatal m by simp
  from f r1 r2 d loop_fatal e show ?thesis by (intro conjI)
qed

subsection \<open>Directories are bind-mounted\<close>

text \<open>
  C8. For a request that takes neither the CIFS nor the NFS branch, whose options
  resolve to flags without \<open>MS_REMOUNT\<close>, \<open>MS_BIND\<close> and \<open>MS_MOVE\<close>, whose source is an
  existing directory for \<open>lstat\<close> and whose type is null or \<open>"auto"\<close>, \<open>singlemount\<close> is one
  call of \<open>mount_it_now\<close> with the same source, no type and the resolved flags plus
  \<open>MS_BIND\<close>, followed by the report of its code; the list of filesystem types is not
  built or walked (\<open>fslist\<close> stays as it was).
\<close>

theorem singlemount_autobind:
  assumes "NUL \<notin> set (mnt_opts mp)"
    and "mnt_type mp = None \<or> mnt_type mp = Some ''auto''"
    and "\<not> unc_source (build E) (mnt_fsname mp)"
    and "\<not> remote_source (build E) (mnt_fsname mp)"
    and "resolve (build E) (mnt_opts mp) AND (MS_REMOUNT OR MS_BIND OR MS_MOVE) = 0"
    and "sys_lstat E (mounts w) (mnt_fsname mp) = Inr Directory"
  shows "singlemount E mp ignore_busy w =
           (case mount_it_now E (mp\<lparr>mnt_type := None\<rparr>)
                   (resolve (build E) (mnt_opts mp) OR MS_BIND)
                   (filter_options (build E) (mnt_opts mp)) w of
              (Died msg, mp', w') \<Rightarrow> (Died msg, mp', w')
            | (Undefined, mp', w') \<Rightarrow> (Undefined, mp', w')
            | (Returned rc, mp', w') \<Rightarrow> report_error mp' ignore_busy rc w')
         \<and> fslist (snd (snd (singlemount E mp ignore_busy w))) = fslist w"
proof -
  let ?fl = "resolve (build E) (mnt_opts mp)"
  let ?fo = "filter_options (build E) (mnt_opts mp)"
  let ?mp = "mp\<lparr>mnt_type := None\<rparr>"
  have p: "parse_mount_options (build E) (in_memory (mnt_opts mp)) 0 (Some None)
             = (?fl, Some ?fo, in_memory (mnt_opts mp))"
    by (simp add: parse_mount_options_in_memory[OF assms(1)] resolve_tokens[OF assms(1)]
        filter_options_def)
  have n: "(if mnt_type mp = Some ''auto'' then mp\<lparr>mnt_type := None\<rparr> else mp) = ?mp"
    using assms(2) by auto
  have s: "singlemount E mp ignore_busy w = singlemount_branch E ?mp ?fl ?fo ignore_busy w"
    by (simp add: singlemount_def p c_string_in_memory[OF assms(1)] n)
  have b: "singlemount_branch E ?mp ?fl ?fo ignore_busy w
             = singlemount_local E ?mp ?fl ?fo ignore_busy w"
    using assms(3,4) by (auto simp: singlemount_branch_def unc_source_def remote_source_def)
  have l: "singlemount_lstat E ?mp ?fl w = Inr (?mp, ?fl OR MS_BIND, None, w)"
    using assms(5,6) by (simp add: singlemount_lstat_def)
  have m: "singlemount_mount E ?mp (?fl OR MS_BIND) ?fo w
             = mount_it_now E ?mp (?fl OR MS_BIND) ?fo w"
    by (simp add: singlemount_mount_def bind_set)
  have e: "singlemount E mp ignore_busy w =
           (case mount_it_now E ?mp (?fl OR MS_BIND) ?fo w of
              (Died msg, mp', w') \<Rightarrow> (Died msg, mp', w')
            | (Undefined, mp', w') \<Rightarrow> (Undefined, mp', w')
            | (Returned rc, mp', w') \<Rightarrow> report_error mp' ignore_busy rc w')"
    unfolding s b by (simp add: singlemount_local_def l m split: prod.splits outcome.splits)
  obtain out mp' w' where r: "mount_it_now E ?mp (?fl OR MS_BIND) ?fo w = (out, mp', w')"
    by (cases "mount_it_now E ?mp (?fl OR MS_BIND) ?fo w") auto
  have f: "fslist w' = fslist w"
    using fslist_mount_it_now[of E ?mp "?fl OR MS_BIND" ?fo w] r by simp
  have "fslist (snd (snd (singlemount E mp ignore_busy w))) = fslist w"
    unfolding e r using f by (cases out) simp_all
  with e show ?thesis by simp
qed

theorem singlemount_autobind_witness:
  "NUL \<notin> set (mnt_opts rec_dir)
   \<and> mnt_type rec_dir = None
   \<and> \<not> unc_source (build (quiet_env\<lparr>sys_lstat := (\<lambda>h p. Inr Directory)\<rparr>))
          (mnt_fsname rec_dir)
   \<and> \<not> remote_source (build (quiet_env\<lparr>sys_lstat := (\<lambda>h p. Inr Directory)\<rparr>))
          (mnt_fsname rec_dir)
   \<and> resolve (build (quiet_env\<lparr>sys_lstat := (\<lambda>h p. Inr Directory)\<rparr>)) (mnt_opts rec_dir)
       AND (MS_REMOUNT OR MS_BIND OR MS_MOVE) = 0
   \<and> sys_lstat (quiet_env\<lparr>sys_lstat := (\<lambda>h p. Inr Directory)\<rparr>) (mounts quiet_world)
        (mnt_fsname rec_dir) = Inr Directory
   \<and> singlemount (quiet_env\<lparr>sys_lstat := (\<lambda>h p. Inr Directory)\<rparr>) rec_dir False quiet_world
       = (Returned 0, rec_dir,
          quiet_world\<lparr>mounts := [attempt rec_dir (MS_SILENT OR MS_BIND) None]\<rparr>)"
proof -
  let ?E = "quiet_env\<lparr>sys_lstat := (\<lambda>h p. Inr Directory)\<rparr>"
  have b: "build ?E = all_features" by (simp add: quiet_env_def)
  have o: "mnt_opts rec_dir = ''defaults''" by (simp add: rec_dir_def)
  have h1: "NUL \<notin> set (mnt_opts rec_dir)" by (simp add: o NUL_def)
  have h2: "mnt_type rec_dir = None" by (simp add: rec_dir_def)
  have h3: "\<not> unc_source (build ?E) (mnt_fsname rec_dir)"
    by (simp add: unc_source_def rec_dir_def c_at_def)
  have h4: "\<not> remote_source (build ?E) (mnt_fsname rec_dir)"
    by (simp add: remote_source_def rec_dir_def)
  have h5: "resolve (build ?E) (mnt_opts rec_dir) AND (MS_REMOUNT OR MS_BIND OR MS_MOVE) = 0"
    by (simp add: b o resolve_defaults MS_defs)
  have h6: "sys_lstat ?E (mounts quiet_world) (mnt_fsname rec_dir) = Inr Directory" by simp
  have r: "rec_dir\<lparr>mnt_type := None\<rparr> = rec_dir" by (simp add: rec_dir_def)
  have m: "mount_it_now ?E rec_dir (MS_SILENT OR MS_BIND) None quiet_world
             = (Returned 0, rec_dir,
                quiet_world\<lparr>mounts := [attempt rec_dir (MS_SILENT OR MS_BIND) None]\<rparr>)"
    by (simp add: mount_it_now_def mount_retry_unfold mount_def quiet_env_def quiet_world_def
        start_world_def)
  have c: "singlemount ?E rec_dir False quiet_world
       = (Returned 0, rec_dir,
          quiet_world\<lparr>mounts := [attempt rec_dir (MS_SILENT OR MS_BIND) None]\<rparr>)"
    using singlemount_autobind[OF h1 _ h3 h4 h5 h6, of False] h2
    by (simp add: b o resolve_defaults filter_options_defaults r m report_error_def)
  from h1 h2 h3 h4 h5 h6 c show ?thesis by (intro conjI)
qed

subsection \<open>The last matching record is mounted\<close>

lemma singlemount_rec_B:
  assumes "\<not> useMtab w" and "\<not> fakeIt w"
  shows "singlemount (quiet_env\<lparr>fstab := Some [rec_A, rec_B]\<rparr>)
           (rec_B\<lparr>mnt_opts := ''defaults,ro'', opts_at := at\<rparr>) False w
         = (Returned 0, rec_B\<lparr>mnt_opts := ''defaults,ro'', opts_at := at\<rparr>,
            w\<lparr>errno := 2,
              mounts := mounts w @ [attempt rec_B (MS_SILENT OR MS_RDONLY) None]\<rparr>)"
proof -
  have b: "build quiet_env = all_features"
    by (simp add: quiet_env_def)
  show ?thesis
    using assms
    by (simp add: singlemount_def b parse_defaults_ro c_string_defaults_ro rec_B_def)
       (simp add: run_simps)
qed

text \<open>
  C5. With one argument \<open>t\<close> and no shared-subtree flag, \<open>mount_main\<close> scans the table
  and keeps, among the records whose source or directory equals \<open>t\<close> or its simplified
  path, the last one in file order. Without a match the process dies ("can't find");
  otherwise the options of that last record are copied, the caller's options are
  appended to the copy, \<open>singlemount\<close> is called once, on that record, the options the
  record then has are freed, and the code of \<open>singlemount\<close> is returned through the
  clean-up. With \<open>/mnt\<close> listed from device A and then from device B, the B record is
  mounted.
\<close>

theorem mount_main_last_match:
  assumes "NUL \<notin> set cmdopts" and "\<not> shared_subtree (build E) cmdopts"
    and "table_records E cmdopts w = Some rs"
  shows "mount_main E cmdopts fstype all [t] behind w =
     (case filter (matches t (bb_simplify_path E t)) rs of
        [] \<Rightarrow> (Died (''can'' @ [CHR 0x27] @ ''t find '' @ t @ '' in ''
                       @ table_name (build E) cmdopts), snd (xmalloc w))
      | m # ms \<Rightarrow>
          clean_up E (Heap (brk w))
            (case own_options (build E) cmdopts (last (m # ms)) (snd (xmalloc w)) of
               (r, w1) \<Rightarrow>
                 (case singlemount E r False w1 of
                    (Died msg, r', w2) \<Rightarrow> (Died msg, w2)
                  | (Undefined, r', w2) \<Rightarrow> (Undefined, w2)
                  | (Returned rc, r', w2) \<Rightarrow>
                      (case free (opts_at r') w2 of
                         None \<Rightarrow> (Undefined, w2)
                       | Some w3 \<Rightarrow> (Returned rc, w3)))))"
proof -
  have "mount_main E cmdopts fstype all [t] behind w =
      clean_up E (Heap (brk w))
        (mount_main_loop E cmdopts fstype (Some t) (Some (bb_simplify_path E t))
           (table_name (build E) cmdopts) rs (None, None) 0 0 (snd (xmalloc w)))"
    using mount_main_table[OF assms(1) _ _ assms(2), of all "[t]" fstype behind w] assms(3)
    by simp
  then show ?thesis
    unfolding mount_main_loop_target mount_last_found_own[symmetric]
    by (cases "filter (matches t (bb_simplify_path E t)) rs")
       (simp_all add: slot_def mtnext_of_def clean_up_def)
qed

theorem mount_main_last_match_witness:
  "NUL \<notin> set ''ro''
   \<and> \<not> shared_subtree (build (quiet_env\<lparr>fstab := Some [rec_A, rec_B]\<rparr>)) ''ro''
   \<and> table_records (quiet_env\<lparr>fstab := Some [rec_A, rec_B]\<rparr>) ''ro'' quiet_world
       = Some [rec_A, rec_B]
   \<and> filter (matches ''/mnt'' (bb_simplify_path (quiet_env\<lparr>fstab := Some [rec_A, rec_B]\<rparr>) ''/mnt''))
        [rec_A, rec_B] = [rec_A, rec_B]
   \<and> mount_main (quiet_env\<lparr>fstab := Some [rec_A, rec_B]\<rparr>) ''ro'' None False [''/mnt''] None
        quiet_world
       = (Returned 0,
          quiet_world\<lparr>errno := 2,
                      mounts := [attempt rec_B (MS_SILENT OR MS_RDONLY) None],
                      live := {}, brk := 3\<rparr>)"
proof -
  let ?E = "quiet_env\<lparr>fstab := Some [rec_A, rec_B]\<rparr>"
  have b: "build ?E = all_features" by (simp add: quiet_env_def)
  have n: "NUL \<notin> set ''ro''" by (simp add: NUL_def)
  have s: "\<not> shared_subtree (build ?E) ''ro''"
    by (simp add: b shared_subtree_def resolve_ro MS_defs)
  have t: "table_records ?E ''ro'' quiet_world = Some [rec_A, rec_B]"
    by (simp add: b table_records_def resolve_ro MS_defs)
  have f: "filter (matches ''/mnt'' (bb_simplify_path ?E ''/mnt'')) [rec_A, rec_B] = [rec_A, rec_B]"
    by (simp add: matches_def rec_A_def rec_B_def)
  have o: "mnt_opts rec_B = ''defaults''" by (simp add: rec_B_def)
  have c: "ENABLE_FEATURE_CLEAN_UP (build quiet_env)"
    by (simp add: quiet_env_def all_features_def)
  have m: "mount_main ?E ''ro'' None False [''/mnt''] None quiet_world
       = (Returned 0,
          quiet_world\<lparr>errno := 2,
                      mounts := [attempt rec_B (MS_SILENT OR MS_RDONLY) None],
                      live := {}, brk := 3\<rparr>)"
    unfolding mount_main_last_match[OF n s t, of None False "''/mnt''" None] f
    by (simp add: own_options_def joined_options_def o xmalloc_def singlemount_rec_B
        quiet_world_def start_world_def free_def clean_up_def c)
  from n s t f m show ?thesis by (intro conjI)
qed

subsection \<open>Mount all\<close>

lemma add_vfs_string_flags_foreign:
  "opts_at mp = Foreign \<Longrightarrow> mnt_opts mp \<noteq> [] \<Longrightarrow>
   add_vfs_string_flags all_features (mount_options all_features) mp w = (None, snd (xmalloc w))"
  by (simp add: mount_options_def all_features_def MS_REMOUNT_def MOUNT_NOAUTO_def
      append_mount_options_def free_def word_sless_alt split: prod.splits)

lemma singlemount_table_env:
  assumes "useMtab w" and "\<not> fakeIt w" and "mtab w = Some tab"
  shows "singlemount table_env ext2_record True w
         = (Undefined, ext2_record,
            snd (xmalloc (w\<lparr>errno := 2,
                           mounts := mounts w @ [attempt ext2_record MS_SILENT None]\<rparr>)))"
proof -
  have u: "update_mtab table_env ext2_record w' = (None, snd (xmalloc w'))"
    if "mtab w' = Some tab" for w'
    using that
    by (simp add: update_mtab_def add_vfs_string_flags_foreign ext2_record_def)
  have q: "build table_env = all_features" "sys_mount table_env = (\<lambda>h c. None)"
    "sys_lstat table_env = (\<lambda>h p. Inl 2)"
    by (simp_all add: table_env_def quiet_env_def)
  have f: "mnt_fsname ext2_record = ''/dev/sda1''" "mnt_type ext2_record = Some ''ext2''"
    "mnt_opts ext2_record = ''defaults''"
    by (simp_all add: ext2_record_def)
  have r: "ext2_record\<lparr>mnt_opts := ''defaults''\<rparr> = ext2_record"
    by (simp add: ext2_record_def)
  show ?thesis
    using assms
    by (simp add: singlemount_def q f r parse_defaults c_string_defaults)
       (simp add: singlemount_branch_def singlemount_local_def singlemount_lstat_def
         singlemount_mount_def mount_it_now_def mount_retry_unfold mount_def attempt_def
         q f u all_features_def c_at_def BACKSLASH_def)
qed

lemma singlemount_table_env_quiet:
  assumes "\<not> useMtab w" and "\<not> fakeIt w"
  shows "singlemount table_env ext2_record True w
         = (Returned 0, ext2_record,
            w\<lparr>errno := 2, mounts := mounts w @ [attempt ext2_record MS_SILENT None]\<rparr>)"
    and "singlemount table_env proc_record True w
         = (Returned 0, proc_record,
            w\<lparr>errno := 2, mounts := mounts w @ [attempt proc_record MS_SILENT None]\<rparr>)"
proof -
  have q: "build table_env = all_features" "sys_mount table_env = (\<lambda>h c. None)"
    "sys_lstat table_env = (\<lambda>h p. Inl 2)"
    by (simp_all add: table_env_def quiet_env_def)
  have r: "ext2_record\<lparr>mnt_opts := ''defaults''\<rparr> = ext2_record"
    "proc_record\<lparr>mnt_opts := ''defaults''\<rparr> = proc_record"
    by (simp_all add: ext2_record_def proc_record_def)
  have f: "mnt_fsname ext2_record = ''/dev/sda1''" "mnt_type ext2_record = Some ''ext2''"
    "mnt_opts ext2_record = ''defaults''"
    "mnt_fsname proc_record = ''proc''" "mnt_type proc_record = Some ''proc''"
    "mnt_opts proc_record = ''defaults''"
    by (simp_all add: ext2_record_def proc_record_def)
  show "singlemount table_env ext2_record True w
         = (Returned 0, ext2_record,
            w\<lparr>errno := 2, mounts := mounts w @ [attempt ext2_record MS_SILENT None]\<rparr>)"
    using assms
    by (simp add: singlemount_def q f r parse_defaults c_string_defaults)
       (simp add: singlemount_branch_def singlemount_local_def singlemount_lstat_def
         singlemount_mount_def mount_it_now_def mount_retry_unfold mount_def attempt_def
         report_error_def q f all_features_def c_at_def BACKSLASH_def)
  show "singlemount table_env proc_record True w
         = (Returned 0, proc_record,
            w\<lparr>errno := 2, mounts := mounts w @ [attempt proc_record MS_SILENT None]\<rparr>)"
    using assms
    by (simp add: singlemount_def q f r parse_defaults c_string_defaults)
       (simp add: singlemount_branch_def singlemount_local_def singlemount_lstat_def
         singlemount_mount_def mount_it_now_def mount_retry_unfold mount_def attempt_def
         report_error_def q f all_features_def c_at_def BACKSLASH_def)
qed

text \<open>
  C6 (the code departs from the claim). \<open>mount -a\<close> on a table with two records that
  are not skipped, on a system where every \<open>mount(2)\<close> succeeds, with mtab support
  compiled in and \<open>useMtab\<close> set (its initial value): the first record is mounted, and
  the block that maintains the mtab then hands the options of the record, which are
  in the buffer of \<open>getmntent_r\<close>, to \<open>free\<close>. The run leaves defined behaviour there; the
  second record is never mounted and no count is returned. With \<open>useMtab\<close> clear the
  same call mounts both records and returns 0.
\<close>

theorem mount_main_all_frees_table_memory:
  "table_records table_env ''defaults'' start_world = Some [ext2_record, proc_record]
   \<and> \<not> skipped table_env None ext2_record \<and> \<not> skipped table_env None proc_record
   \<and> sys_mount table_env [] (attempt ext2_record MS_SILENT None) = None
   \<and> sys_mount table_env [attempt ext2_record MS_SILENT None]
        (attempt proc_record MS_SILENT None) = None
   \<and> useMtab start_world
   \<and> opts_at ext2_record = Foreign
   \<and> mount_main table_env ''defaults'' None True [] None start_world
       = (Undefined,
          start_world\<lparr>errno := 2, mounts := [attempt ext2_record MS_SILENT None],
                      live := {0, 1}, brk := 2\<rparr>)
   \<and> mount_main table_env ''defaults'' None True [] None quiet_world
       = (Returned 0,
          quiet_world\<lparr>errno := 2,
                      mounts := [attempt ext2_record MS_SILENT None,
                                 attempt proc_record MS_SILENT None],
                      live := {}, brk := 1\<rparr>)"
proof -
  have t: "table_records table_env ''defaults'' start_world = Some [ext2_record, proc_record]"
    by (simp add: table_records_def resolve_defaults MS_defs) (simp add: table_env_def)
  have s: "\<not> shared_subtree (build table_env) ''defaults''"
    by (simp add: shared_subtree_def resolve_defaults MS_defs)
  have k: "\<not> skipped table_env None ext2_record" "\<not> skipped table_env None proc_record"
    by (simp_all add: not_skipped_defaults ext2_record_def proc_record_def)
  have y: "sys_mount table_env [] (attempt ext2_record MS_SILENT None) = None"
    "sys_mount table_env [attempt ext2_record MS_SILENT None]
        (attempt proc_record MS_SILENT None) = None"
    by (simp_all add: table_env_def quiet_env_def)
  have u: "useMtab start_world" "opts_at ext2_record = Foreign"
    by (simp_all add: start_world_def ext2_record_def)
  have o: "mnt_opts ext2_record = ''defaults''" by (simp add: ext2_record_def)
  have r: "ext2_record\<lparr>mnt_opts := ''defaults''\<rparr> = ext2_record" by (simp add: ext2_record_def)
  have z: "MS_SILENT AND (MOUNT_NOAUTO OR MOUNT_SWAP) = 0" by (simp add: MS_defs)
  have w: "useMtab (snd (xmalloc start_world))" "\<not> fakeIt (snd (xmalloc start_world))"
    "mtab (snd (xmalloc start_world)) = Some []"
    by (simp_all add: xmalloc_def start_world_def)
  have l: "mount_main_loop table_env ''defaults'' None None None
              fstabname [ext2_record, proc_record]
              (None, None) 0 0 (snd (xmalloc start_world))
           = (Undefined,
              start_world\<lparr>errno := 2, mounts := [attempt ext2_record MS_SILENT None],
                          live := {0, 1}, brk := 2\<rparr>)" for fstabname
    by (simp add: Let_def o parse_defaults c_string_defaults r z singlemount_table_env[OF w])
       (simp add: xmalloc_def start_world_def insert_commute)
  have p: "True \<or> ([] :: string list) \<noteq> []" "length ([] :: string list) \<noteq> 2"
    by simp_all
  have m1: "mount_main table_env ''defaults'' None True [] None start_world
       = clean_up table_env (Heap (brk start_world))
           (mount_main_loop table_env ''defaults'' None None None
              (table_name (build table_env) ''defaults'') [ext2_record, proc_record]
              (None, None) 0 0 (snd (xmalloc start_world)))"
    by (simp only: mount_main_table[OF nul_defaults p s] t option.case list.case)
  have m: "mount_main table_env ''defaults'' None True [] None start_world
       = (Undefined,
          start_world\<lparr>errno := 2, mounts := [attempt ext2_record MS_SILENT None],
                      live := {0, 1}, brk := 2\<rparr>)"
    by (simp only: m1 l) (simp add: clean_up_def)
  have t2: "table_records table_env ''defaults'' quiet_world = Some [ext2_record, proc_record]"
    by (simp add: table_records_def resolve_defaults MS_defs) (simp add: table_env_def)
  have o2: "mnt_opts proc_record = ''defaults''" "mnt_type proc_record = Some ''proc''"
    by (simp_all add: proc_record_def)
  have r2: "proc_record\<lparr>mnt_opts := ''defaults''\<rparr> = proc_record"
    by (simp add: proc_record_def)
  have l2: "mount_main_loop table_env ''defaults'' None None None
              fstabname [ext2_record, proc_record]
              (None, None) 0 0 (snd (xmalloc quiet_world))
           = (Returned 0,
              quiet_world\<lparr>errno := 2,
                          mounts := [attempt ext2_record MS_SILENT None,
                                     attempt proc_record MS_SILENT None],
                          live := {0}, brk := 1\<rparr>)" for fstabname
    by (simp add: Let_def o o2 parse_defaults c_string_defaults r r2 z
          singlemount_table_env_quiet xmalloc_def quiet_world_def start_world_def)
  have m3: "mount_main table_env ''defaults'' None True [] None quiet_world
       = clean_up table_env (Heap (brk quiet_world))
           (mount_main_loop table_env ''defaults'' None None None
              (table_name (build table_env) ''defaults'') [ext2_record, proc_record]
              (None, None) 0 0 (snd (xmalloc quiet_world)))"
    by (simp only: mount_main_table[OF nul_defaults p s] t2 option.case list.case)
  have m4: "mount_main table_env ''defaults'' None True [] None quiet_world
       = (Returned 0,
          quiet_world\<lparr>errno := 2,
                      mounts := [attempt ext2_record MS_SILENT None,
                                 attempt proc_record MS_SILENT None],
                      live := {}, brk := 1\<rparr>)"
    by (simp only: m3 l2)
       (simp add: clean_up_def free_def all_features_def quiet_world_def start_world_def)
  from t k y u m m4 show ?thesis by (intro conjI)
qed

end
